theory Spec2Isabelle
  imports
    Complex_Main
    "HOL-Library.Char_ord"
    "HOL-Library.List_Lexorder"
    "HOL-Library.Log_Nat"
    "HOL-Library.Multiset"
begin

section \<open>Entities (shared/schema.ts)\<close>

text \<open>
  The two enumerations of \<^verbatim>\<open>schema.ts\<close> (\<^verbatim>\<open>TaskStatus\<close>, \<^verbatim>\<open>TaskPriority\<close>) are datatypes;
  \<open>status_text\<close> and \<open>priority_text\<close> give the TEXT value stored in the column, which is
  what the SQL comparisons of \<^verbatim>\<open>storage.ts\<close> see. The CHECK constraints of the two columns
  hold by typing.
\<close>

datatype TaskStatus = PENDING | IN_PROGRESS | COMPLETED

datatype TaskPriority = LOW | MEDIUM | HIGH

fun status_text :: "TaskStatus \<Rightarrow> string" where
  "status_text PENDING = ''pending''"
| "status_text IN_PROGRESS = ''in-progress''"
| "status_text COMPLETED = ''completed''"

fun priority_text :: "TaskPriority \<Rightarrow> string" where
  "priority_text LOW = ''low''"
| "priority_text MEDIUM = ''medium''"
| "priority_text HIGH = ''high''"

text \<open>
  A row of \<^verbatim>\<open>employees\<close> and a row of \<^verbatim>\<open>tasks\<close>. Identifiers are JavaScript numbers
  holding SQLite integers (\<open>int\<close>); a nullable TEXT column is a \<open>string option\<close>;
  timestamps are the text that \<^verbatim>\<open>CURRENT_TIMESTAMP\<close> produces, compared as text.
\<close>

record Employee =
  emp_id :: int
  emp_name :: string
  emp_email :: string
  emp_department :: string
  emp_position :: string
  emp_createdAt :: string

record Task =
  task_id :: int
  task_title :: string
  task_description :: "string option"
  task_status :: TaskStatus
  task_employeeId :: int
  task_dueDate :: "string option"
  task_priority :: TaskPriority
  task_createdAt :: string
  task_updatedAt :: string

text \<open>
  A property of a JavaScript object that may be missing (\<^verbatim>\<open>undefined\<close>), \<^verbatim>\<open>null\<close> or
  present. Properties that cannot be \<^verbatim>\<open>null\<close> are plain options, \<open>None\<close> being
  \<^verbatim>\<open>undefined\<close>.
\<close>

datatype 'a optional = Undefined | Null | Given 'a

record InsertEmployee =
  ie_name :: string
  ie_email :: string
  ie_department :: string
  ie_position :: string

record PartialInsertEmployee =
  pe_name :: "string option"
  pe_email :: "string option"
  pe_department :: "string option"
  pe_position :: "string option"

record InsertTask =
  it_title :: string
  it_description :: "string optional"
  it_status :: "TaskStatus option"
  it_employeeId :: int
  it_dueDate :: "string optional"
  it_priority :: "TaskPriority option"

record PartialInsertTask =
  pt_title :: "string option"
  pt_description :: "string optional"
  pt_status :: "TaskStatus option"
  pt_employeeId :: "int option"
  pt_dueDate :: "string optional"
  pt_priority :: "TaskPriority option"

text \<open>
  The rules of \<^verbatim>\<open>insertTaskSchema\<close> on an already typed payload: title of 1 to 200
  characters, description of at most 1000, a positive employee id, a due date of the
  shape \<^verbatim>\<open>\d{4}-\d{2}-\d{2}\<close>. The two enumerations are valid by typing.
\<close>

definition is_digit :: "char \<Rightarrow> bool" where
  "is_digit c = (CHR ''0'' \<le> c \<and> c \<le> CHR ''9'')"

definition dueDate_shape :: "string \<Rightarrow> bool" where
  "dueDate_shape d =
     (length d = 10 \<and> d ! 4 = CHR ''-'' \<and> d ! 7 = CHR ''-'' \<and>
      list_all is_digit (take 4 d) \<and> list_all is_digit (take 2 (drop 5 d)) \<and>
      list_all is_digit (drop 8 d))"

definition insertTaskSchema_ok :: "InsertTask \<Rightarrow> bool" where
  "insertTaskSchema_ok t =
     (1 \<le> length (it_title t) \<and> length (it_title t) \<le> 200 \<and>
      (case it_description t of Given d \<Rightarrow> length d \<le> 1000 | _ \<Rightarrow> True) \<and>
      0 < it_employeeId t \<and>
      (case it_dueDate t of Given d \<Rightarrow> dueDate_shape d | _ \<Rightarrow> True))"

section \<open>The store (server/config/database.ts, server/database/migrations.ts)\<close>

text \<open>
  The SQLite database after \<^verbatim>\<open>runMigrations\<close>: the rows of the two tables in insertion
  order and, for each AUTOINCREMENT key, the largest rowid the table has ever held (what
  \<^verbatim>\<open>sqlite_sequence\<close> records). The connection sets \<^verbatim>\<open>foreign_keys = ON\<close>, so the
  foreign key of \<^verbatim>\<open>tasks.employee_id\<close> is enforced on insert and update, and deleting an
  employee cascades. A statement that violates a constraint raises a
  \<^verbatim>\<open>SqliteError\<close> with the engine's message and changes nothing.
\<close>

record store =
  employees :: "Employee list"
  tasks :: "Task list"
  employees_seq :: int
  tasks_seq :: int

datatype SqliteError = SqliteError string

definition empty_store :: store where
  "empty_store = \<lparr>employees = [], tasks = [], employees_seq = 0, tasks_seq = 0\<rparr>"

text \<open>\<^verbatim>\<open>INSERT INTO employees (name, email, department, position) VALUES (?, ?, ?, ?)\<close>;
  the result is \<^verbatim>\<open>lastInsertRowid\<close>.\<close>

definition insert_employees ::
  "string \<Rightarrow> string \<Rightarrow> string \<Rightarrow> string \<Rightarrow> string \<Rightarrow> store \<Rightarrow> (SqliteError + int) \<times> store" where
  "insert_employees now name email department position db =
     (if \<exists>e \<in> set (employees db). emp_email e = email
      then (Inl (SqliteError ''UNIQUE constraint failed: employees.email''), db)
      else let rowid = employees_seq db + 1 in
        (Inr rowid,
         db\<lparr>employees := employees db @
               [\<lparr>emp_id = rowid, emp_name = name, emp_email = email,
                 emp_department = department, emp_position = position,
                 emp_createdAt = now\<rparr>],
            employees_seq := rowid\<rparr>))"

text \<open>\<^verbatim>\<open>INSERT INTO tasks (title, description, status, employee_id, due_date, priority)
  VALUES (?, ?, ?, ?, ?, ?)\<close>.\<close>

definition insert_tasks ::
  "string \<Rightarrow> string \<Rightarrow> string option \<Rightarrow> TaskStatus \<Rightarrow> int \<Rightarrow> string option \<Rightarrow> TaskPriority
     \<Rightarrow> store \<Rightarrow> (SqliteError + int) \<times> store" where
  "insert_tasks now title description status employee_id due_date priority db =
     (if \<not> (\<exists>e \<in> set (employees db). emp_id e = employee_id)
      then (Inl (SqliteError ''FOREIGN KEY constraint failed''), db)
      else let rowid = tasks_seq db + 1 in
        (Inr rowid,
         db\<lparr>tasks := tasks db @
               [\<lparr>task_id = rowid, task_title = title, task_description = description,
                 task_status = status, task_employeeId = employee_id,
                 task_dueDate = due_date, task_priority = priority,
                 task_createdAt = now, task_updatedAt = now\<rparr>],
            tasks_seq := rowid\<rparr>))"

text \<open>The SET list that \<^verbatim>\<open>updateEmployee\<close> builds, applied to one row.\<close>

definition set_employee :: "PartialInsertEmployee \<Rightarrow> Employee \<Rightarrow> Employee" where
  "set_employee p e =
     e\<lparr>emp_name := (case pe_name p of Some v \<Rightarrow> v | None \<Rightarrow> emp_name e),
       emp_email := (case pe_email p of Some v \<Rightarrow> v | None \<Rightarrow> emp_email e),
       emp_department := (case pe_department p of Some v \<Rightarrow> v | None \<Rightarrow> emp_department e),
       emp_position := (case pe_position p of Some v \<Rightarrow> v | None \<Rightarrow> emp_position e)\<rparr>"

text \<open>\<^verbatim>\<open>UPDATE employees SET ... WHERE id = ?\<close>; the result is \<^verbatim>\<open>changes\<close>.\<close>

definition update_employees ::
  "PartialInsertEmployee \<Rightarrow> int \<Rightarrow> store \<Rightarrow> (SqliteError + nat) \<times> store" where
  "update_employees p i db =
     (if (\<exists>e \<in> set (employees db). emp_id e = i) \<and>
         (case pe_email p of
            Some v \<Rightarrow> \<exists>e \<in> set (employees db). emp_id e \<noteq> i \<and> emp_email e = v
          | None \<Rightarrow> False)
      then (Inl (SqliteError ''UNIQUE constraint failed: employees.email''), db)
      else (Inr (length (filter (\<lambda>e. emp_id e = i) (employees db))),
            db\<lparr>employees := map (\<lambda>e. if emp_id e = i then set_employee p e else e)
                               (employees db)\<rparr>))"

text \<open>The SET list that \<^verbatim>\<open>updateTask\<close> builds, applied to one row: it always starts with
  \<^verbatim>\<open>updated_at = CURRENT_TIMESTAMP\<close>.\<close>

definition set_task :: "string \<Rightarrow> PartialInsertTask \<Rightarrow> Task \<Rightarrow> Task" where
  "set_task now p t =
     t\<lparr>task_updatedAt := now,
       task_title := (case pt_title p of Some v \<Rightarrow> v | None \<Rightarrow> task_title t),
       task_description :=
         (case pt_description p of
            Undefined \<Rightarrow> task_description t | Null \<Rightarrow> None | Given v \<Rightarrow> Some v),
       task_status := (case pt_status p of Some v \<Rightarrow> v | None \<Rightarrow> task_status t),
       task_employeeId := (case pt_employeeId p of Some v \<Rightarrow> v | None \<Rightarrow> task_employeeId t),
       task_dueDate :=
         (case pt_dueDate p of
            Undefined \<Rightarrow> task_dueDate t | Null \<Rightarrow> None | Given v \<Rightarrow> Some v),
       task_priority := (case pt_priority p of Some v \<Rightarrow> v | None \<Rightarrow> task_priority t)\<rparr>"

text \<open>\<^verbatim>\<open>UPDATE tasks SET updated_at = CURRENT_TIMESTAMP, ... WHERE id = ?\<close>.\<close>

definition update_tasks ::
  "string \<Rightarrow> PartialInsertTask \<Rightarrow> int \<Rightarrow> store \<Rightarrow> (SqliteError + nat) \<times> store" where
  "update_tasks now p i db =
     (if (\<exists>t \<in> set (tasks db). task_id t = i) \<and>
         (case pt_employeeId p of
            Some v \<Rightarrow> \<not> (\<exists>e \<in> set (employees db). emp_id e = v)
          | None \<Rightarrow> False)
      then (Inl (SqliteError ''FOREIGN KEY constraint failed''), db)
      else (Inr (length (filter (\<lambda>t. task_id t = i) (tasks db))),
            db\<lparr>tasks := map (\<lambda>t. if task_id t = i then set_task now p t else t) (tasks db)\<rparr>))"

text \<open>\<^verbatim>\<open>DELETE FROM employees WHERE id = ?\<close>, with the cascade of
  \<^verbatim>\<open>FOREIGN KEY (employee_id) REFERENCES employees(id) ON DELETE CASCADE\<close>: the tasks of a
  deleted employee go with it. The result is \<^verbatim>\<open>changes\<close>, the number of employee rows
  deleted.\<close>

definition delete_employees :: "int \<Rightarrow> store \<Rightarrow> nat \<times> store" where
  "delete_employees i db =
     (let changes = length (filter (\<lambda>e. emp_id e = i) (employees db)) in
      (changes,
       if changes > 0
       then db\<lparr>employees := filter (\<lambda>e. emp_id e \<noteq> i) (employees db),
               tasks := filter (\<lambda>t. task_employeeId t \<noteq> i) (tasks db)\<rparr>
       else db))"

text \<open>\<^verbatim>\<open>DELETE FROM tasks WHERE id = ?\<close>.\<close>

definition delete_tasks :: "int \<Rightarrow> store \<Rightarrow> nat \<times> store" where
  "delete_tasks i db =
     (length (filter (\<lambda>t. task_id t = i) (tasks db)),
      db\<lparr>tasks := filter (\<lambda>t. task_id t \<noteq> i) (tasks db)\<rparr>)"

text \<open>\<^verbatim>\<open>ORDER BY col\<close> and \<^verbatim>\<open>ORDER BY col DESC\<close>. Rows with equal keys stay in the order
  of the table, which is how SQLite's sorter returns them; SQL itself leaves that order
  open, and no statement below depends on it.\<close>

definition order_by :: "('a \<Rightarrow> 'k::linorder) \<Rightarrow> 'a list \<Rightarrow> 'a list" where
  "order_by f rows = sort_key f rows"

definition order_by_desc :: "('a \<Rightarrow> 'k::linorder) \<Rightarrow> 'a list \<Rightarrow> 'a list" where
  "order_by_desc f rows = rev (sort_key f (rev rows))"

text \<open>\<^verbatim>\<open>FROM tasks t JOIN employees e ON t.employee_id = e.id\<close>.\<close>

definition tasks_join_employees :: "store \<Rightarrow> (Task \<times> Employee) list" where
  "tasks_join_employees db =
     [(t, e). t \<leftarrow> tasks db, e \<leftarrow> employees db, task_employeeId t = emp_id e]"

section \<open>The persistence layer (server/storage.ts)\<close>

text \<open>
  Every method takes the store and, where it writes, returns the store after the call.
  A statement that throws leaves an \<open>Inl\<close> with the engine's error. \<open>now\<close> is the value
  of \<^verbatim>\<open>CURRENT_TIMESTAMP\<close> at the call. A \<^verbatim>\<open>stmt.get\<close> that finds no row is \<open>None\<close>.
\<close>

definition getAllEmployees :: "store \<Rightarrow> Employee list" where
  "getAllEmployees db = order_by emp_name (employees db)"

definition getEmployeeById :: "int \<Rightarrow> store \<Rightarrow> Employee option" where
  "getEmployeeById i db = find (\<lambda>e. emp_id e = i) (employees db)"

definition getEmployeeWithTasks :: "int \<Rightarrow> store \<Rightarrow> (Employee \<times> Task list) option" where
  "getEmployeeWithTasks i db =
     (case getEmployeeById i db of
        None \<Rightarrow> None
      | Some employee \<Rightarrow>
          Some (employee,
                order_by_desc task_createdAt (filter (\<lambda>t. task_employeeId t = i) (tasks db))))"

definition createEmployee ::
  "string \<Rightarrow> InsertEmployee \<Rightarrow> store \<Rightarrow> (SqliteError + Employee option) \<times> store" where
  "createEmployee now employee db =
     (case insert_employees now (ie_name employee) (ie_email employee)
             (ie_department employee) (ie_position employee) db of
        (Inl err, db') \<Rightarrow> (Inl err, db')
      | (Inr lastInsertRowid, db') \<Rightarrow> (Inr (getEmployeeById lastInsertRowid db'), db'))"

definition updateEmployee ::
  "int \<Rightarrow> PartialInsertEmployee \<Rightarrow> store \<Rightarrow> (SqliteError + Employee option) \<times> store" where
  "updateEmployee i employee db =
     (case getEmployeeById i db of
        None \<Rightarrow> (Inr None, db)
      | Some existing \<Rightarrow>
          if pe_name employee = None \<and> pe_email employee = None \<and>
             pe_department employee = None \<and> pe_position employee = None
          then (Inr (Some existing), db)
          else (case update_employees employee i db of
                  (Inl err, db') \<Rightarrow> (Inl err, db')
                | (Inr changes, db') \<Rightarrow> (Inr (getEmployeeById i db'), db')))"

definition deleteEmployee :: "int \<Rightarrow> store \<Rightarrow> bool \<times> store" where
  "deleteEmployee i db = (case delete_employees i db of (changes, db') \<Rightarrow> (changes > 0, db'))"

record TaskFilters =
  f_status :: "string option"
  f_employeeId :: "int option"

text \<open>The two conditions of \<^verbatim>\<open>getAllTasks\<close>: \<^verbatim>\<open>if (filters?.status)\<close> and
  \<^verbatim>\<open>if (filters?.employeeId)\<close> test truthiness, so an empty string and the number 0 add
  no condition.\<close>

definition status_condition :: "TaskFilters option \<Rightarrow> Task \<Rightarrow> bool" where
  "status_condition filters t =
     (case filters of
        Some f \<Rightarrow> (case f_status f of
                     Some s \<Rightarrow> if s \<noteq> [] then status_text (task_status t) = s else True
                   | None \<Rightarrow> True)
      | None \<Rightarrow> True)"

definition employeeId_condition :: "TaskFilters option \<Rightarrow> Task \<Rightarrow> bool" where
  "employeeId_condition filters t =
     (case filters of
        Some f \<Rightarrow> (case f_employeeId f of
                     Some n \<Rightarrow> if n \<noteq> 0 then task_employeeId t = n else True
                   | None \<Rightarrow> True)
      | None \<Rightarrow> True)"

definition getAllTasks :: "TaskFilters option \<Rightarrow> store \<Rightarrow> (Task \<times> string) list" where
  "getAllTasks filters db =
     order_by_desc (\<lambda>row. task_createdAt (fst row))
       (map (\<lambda>(t, e). (t, emp_name e))
          (filter (\<lambda>(t, e). status_condition filters t \<and> employeeId_condition filters t)
             (tasks_join_employees db)))"

definition getTaskById :: "int \<Rightarrow> store \<Rightarrow> (Task \<times> string \<times> string) option" where
  "getTaskById i db =
     map_option (\<lambda>(t, e). (t, emp_name e, emp_email e))
       (find (\<lambda>(t, e). task_id t = i) (tasks_join_employees db))"

text \<open>\<^verbatim>\<open>x || null\<close> on a string that may be missing: \<^verbatim>\<open>undefined\<close>, \<^verbatim>\<open>null\<close> and the empty
  string are falsy.\<close>

definition or_null :: "string optional \<Rightarrow> string option" where
  "or_null x = (case x of Given v \<Rightarrow> if v = [] then None else Some v | _ \<Rightarrow> None)"

definition createTask ::
  "string \<Rightarrow> InsertTask \<Rightarrow> store \<Rightarrow> (SqliteError + Task option) \<times> store" where
  "createTask now task db =
     (case insert_tasks now
             (it_title task)
             (or_null (it_description task))
             (case it_status task of Some v \<Rightarrow> v | None \<Rightarrow> PENDING)
             (it_employeeId task)
             (or_null (it_dueDate task))
             (case it_priority task of Some v \<Rightarrow> v | None \<Rightarrow> MEDIUM) db of
        (Inl err, db') \<Rightarrow> (Inl err, db')
      | (Inr lastInsertRowid, db') \<Rightarrow>
          (Inr (find (\<lambda>t. task_id t = lastInsertRowid) (tasks db')), db'))"

definition updateTask ::
  "string \<Rightarrow> int \<Rightarrow> PartialInsertTask \<Rightarrow> store \<Rightarrow> (SqliteError + Task option) \<times> store" where
  "updateTask now i task db =
     (case find (\<lambda>t. task_id t = i) (tasks db) of
        None \<Rightarrow> (Inr None, db)
      | Some existing \<Rightarrow>
          (case update_tasks now task i db of
             (Inl err, db') \<Rightarrow> (Inl err, db')
           | (Inr changes, db') \<Rightarrow> (Inr (find (\<lambda>t. task_id t = i) (tasks db')), db')))"

definition deleteTask :: "int \<Rightarrow> store \<Rightarrow> bool \<times> store" where
  "deleteTask i db = (case delete_tasks i db of (changes, db') \<Rightarrow> (changes > 0, db'))"

subsection \<open>JavaScript number arithmetic of \<^verbatim>\<open>getDashboardStats\<close>\<close>

text \<open>
  \<^verbatim>\<open>completedTasks / totalTasks\<close> and \<^verbatim>\<open>* 100\<close> are IEEE 754 binary64 operations: each
  returns the double nearest to the exact result, ties to the even significand. A
  positive double is \<open>m * 2 ^ e\<close> with \<open>m < 2 ^ 53\<close> and \<open>e \<ge> -1074\<close>. \<open>binade x\<close> is
  \<open>\<lfloor>log\<^sub>2 x\<rfloor>\<close>; \<open>double x\<close> rounds a non-negative rational below \<open>2 ^ 1024\<close> to binary64
  (the values here are at most 100, so overflow does not arise; the counts themselves
  are exact doubles below \<open>2 ^ 53\<close>). \<^verbatim>\<open>Math.round\<close> returns the nearest integer, the
  larger one at a tie.
\<close>

definition binade :: "rat \<Rightarrow> int" where
  "binade x =
     (case quotient_of x of
        (a, b) \<Rightarrow> let k = bitlen a - bitlen b in if 2 powi k \<le> x then k else k - 1)"

definition round_ties_even :: "rat \<Rightarrow> int" where
  "round_ties_even y =
     (let n = \<lfloor>y\<rfloor>; r = y - of_int n in
      if r < 1 / 2 then n else if 1 / 2 < r then n + 1 else if even n then n else n + 1)"

definition double :: "rat \<Rightarrow> rat" where
  "double x =
     (if x \<le> 0 then 0
      else let e = max (binade x - 52) (- 1074) in
           of_int (round_ties_even (x / 2 powi e)) * 2 powi e)"

definition js_div :: "rat \<Rightarrow> rat \<Rightarrow> rat" where
  "js_div a b = double (a / b)"

definition js_mul :: "rat \<Rightarrow> rat \<Rightarrow> rat" where
  "js_mul a b = double (a * b)"

definition Math_round :: "rat \<Rightarrow> int" where
  "Math_round x = \<lfloor>x + 1 / 2\<rfloor>"

record DashboardStats =
  totalTasks :: nat
  completedTasks :: nat
  completionRate :: int
  tasksByStatus_pending :: nat
  tasksByStatus_in_progress :: nat
  tasksByStatus_completed :: nat
  tasksByEmployee :: "(int \<times> string \<times> nat) list"

text \<open>\<^verbatim>\<open>SELECT COUNT(*) as count FROM tasks WHERE status = ?\<close>.\<close>

definition count_status :: "string \<Rightarrow> store \<Rightarrow> nat" where
  "count_status s db = length (filter (\<lambda>t. status_text (task_status t) = s) (tasks db))"

text \<open>\<^verbatim>\<open>SELECT e.id, e.name, COUNT(t.id) FROM employees e LEFT JOIN tasks t
  ON e.id = t.employee_id GROUP BY e.id\<close>: one group for each employee row (the id is the
  primary key), an employee without tasks having the count 0.\<close>

definition employee_task_counts :: "store \<Rightarrow> (int \<times> string \<times> nat) list" where
  "employee_task_counts db =
     map (\<lambda>e. (emp_id e, emp_name e,
               length (filter (\<lambda>t. emp_id e = task_employeeId t) (tasks db))))
       (employees db)"

definition getDashboardStats :: "store \<Rightarrow> DashboardStats" where
  "getDashboardStats db =
     (let total = length (tasks db);
          completed = count_status ''completed'' db;
          pending = count_status ''pending'' db;
          inProgress = count_status ''in-progress'' db
      in \<lparr>totalTasks = total,
          completedTasks = completed,
          completionRate =
            (if total > 0
             then Math_round (js_mul (js_div (of_nat completed) (of_nat total)) 100)
             else 0),
          tasksByStatus_pending = pending,
          tasksByStatus_in_progress = inProgress,
          tasksByStatus_completed = completed,
          tasksByEmployee = order_by_desc (\<lambda>(i, n, c). c) (employee_task_counts db)\<rparr>)"

section \<open>Seeding (server/database/seed.ts)\<close>

definition sample_employees :: "(string \<times> string \<times> string \<times> string) list" where
  "sample_employees =
     [(''Raj Patel'', ''raj.patel@company.com'', ''Engineering'', ''Senior Developer''),
      (''Priya Sharma'', ''priya.sharma@company.com'', ''Marketing'', ''Content Manager''),
      (''Arjun Singh'', ''arjun.singh@company.com'', ''Sales'', ''Sales Representative''),
      (''Divya Gupta'', ''divya.gupta@company.com'', ''HR'', ''HR Manager''),
      (''Aditya Kumar'', ''aditya.kumar@company.com'', ''Engineering'', ''Frontend Developer''),
      (''Neha Malhotra'', ''neha.malhotra@company.com'', ''Design'', ''UI/UX Designer''),
      (''Rohan Verma'', ''rohan.verma@company.com'', ''Product'', ''Product Manager''),
      (''Anjali Nair'', ''anjali.nair@company.com'', ''Finance'', ''Financial Analyst'')]"

definition sample_tasks ::
  "(string \<times> string \<times> TaskStatus \<times> int \<times> string \<times> TaskPriority) list" where
  "sample_tasks =
     [(''Fix login authentication bug'', ''Users cannot login with special characters in password'', IN_PROGRESS, 1, ''2025-02-01'', HIGH),
      (''Implement user dashboard'', ''Create main dashboard with key metrics'', PENDING, 1, ''2025-02-15'', HIGH),
      (''Code review for API endpoints'', ''Review and approve new REST API endpoints'', COMPLETED, 1, ''2025-01-20'', MEDIUM),
      (''Create Q1 marketing campaign'', ''Design and launch Q1 digital marketing campaign'', IN_PROGRESS, 2, ''2025-02-28'', HIGH),
      (''Update social media content'', ''Refresh company social media profiles'', PENDING, 2, ''2025-02-10'', LOW),
      (''Write blog post on new features'', ''Technical blog post about latest product updates'', COMPLETED, 2, ''2025-01-15'', MEDIUM),
      (''Contact enterprise leads'', ''Follow up with potential enterprise clients'', IN_PROGRESS, 3, ''2025-02-05'', HIGH),
      (''Prepare sales presentation'', ''Create Q1 sales deck for team meeting'', PENDING, 3, ''2025-02-20'', MEDIUM),
      (''Update CRM records'', ''Clean and update customer database'', COMPLETED, 3, ''2025-01-18'', LOW),
      (''Conduct employee interviews'', ''Interview candidates for open positions'', IN_PROGRESS, 4, ''2025-02-08'', HIGH),
      (''Update employee handbook'', ''Review and update company policies'', PENDING, 4, ''2025-03-01'', MEDIUM),
      (''Plan team building event'', ''Organize quarterly team building activity'', COMPLETED, 4, ''2025-01-25'', LOW),
      (''Optimize database queries'', ''Improve performance of slow database operations'', PENDING, 5, ''2025-02-12'', HIGH),
      (''Build responsive components'', ''Create mobile-responsive UI components'', IN_PROGRESS, 5, ''2025-02-18'', MEDIUM),
      (''Fix CSS styling issues'', ''Resolve cross-browser compatibility problems'', COMPLETED, 5, ''2025-01-22'', LOW),
      (''Design new landing page'', ''Create mockups for product landing page'', IN_PROGRESS, 6, ''2025-02-14'', HIGH),
      (''Create icon set'', ''Design custom icons for the application'', PENDING, 6, ''2025-02-25'', MEDIUM),
      (''User research interviews'', ''Conduct UX research with target users'', COMPLETED, 6, ''2025-01-28'', MEDIUM),
      (''Write product requirements'', ''Document PRD for new feature release'', IN_PROGRESS, 7, ''2025-02-10'', HIGH),
      (''Analyze user feedback'', ''Review and categorize customer feedback'', PENDING, 7, ''2025-02-22'', MEDIUM),
      (''Roadmap planning session'', ''Plan product roadmap for Q2'', COMPLETED, 7, ''2025-01-30'', HIGH),
      (''Prepare financial report'', ''Create monthly financial summary'', PENDING, 8, ''2025-02-05'', HIGH),
      (''Budget analysis for Q1'', ''Analyze department budget allocations'', IN_PROGRESS, 8, ''2025-02-15'', MEDIUM),
      (''Audit expense reports'', ''Review and approve team expenses'', COMPLETED, 8, ''2025-01-20'', LOW)]"

text \<open>The two \<^verbatim>\<open>for\<close> loops. \<open>clock k\<close> is \<^verbatim>\<open>CURRENT_TIMESTAMP\<close> at the \<open>k\<close>-th statement of the
  seeding. A statement that throws ends the seeding there, with the rows inserted so
  far.\<close>

fun seed_employees ::
  "(nat \<Rightarrow> string) \<Rightarrow> nat \<Rightarrow> (string \<times> string \<times> string \<times> string) list \<Rightarrow> store
     \<Rightarrow> SqliteError option \<times> store" where
  "seed_employees clock k [] db = (None, db)"
| "seed_employees clock k ((name, email, department, position) # rest) db =
     (case insert_employees (clock k) name email department position db of
        (Inl err, db') \<Rightarrow> (Some err, db')
      | (Inr rowid, db') \<Rightarrow> seed_employees clock (Suc k) rest db')"

fun seed_tasks ::
  "(nat \<Rightarrow> string) \<Rightarrow> nat
     \<Rightarrow> (string \<times> string \<times> TaskStatus \<times> int \<times> string \<times> TaskPriority) list \<Rightarrow> store
     \<Rightarrow> SqliteError option \<times> store" where
  "seed_tasks clock k [] db = (None, db)"
| "seed_tasks clock k ((title, description, status, employee_id, due_date, priority) # rest) db =
     (case insert_tasks (clock k) title (Some description) status employee_id (Some due_date)
             priority db of
        (Inl err, db') \<Rightarrow> (Some err, db')
      | (Inr rowid, db') \<Rightarrow> seed_tasks clock (Suc k) rest db')"

definition seedDatabase :: "(nat \<Rightarrow> string) \<Rightarrow> store \<Rightarrow> SqliteError option \<times> store" where
  "seedDatabase clock db =
     (if length (employees db) > 0 then (None, db)
      else (case seed_employees clock 0 sample_employees db of
              (Some err, db') \<Rightarrow> (Some err, db')
            | (None, db') \<Rightarrow> seed_tasks clock (length sample_employees) sample_tasks db'))"

subsection \<open>Reachable stores\<close>

text \<open>The stores the process can be in: the migrated empty database, seeded or not, and
  any store a call of a writing method of the persistence layer leaves behind.\<close>

inductive reachable :: "store \<Rightarrow> bool" where
  migrated: "reachable empty_store"
| seeded: "reachable db \<Longrightarrow> reachable (snd (seedDatabase clock db))"
| created_employee: "reachable db \<Longrightarrow> reachable (snd (createEmployee now employee db))"
| updated_employee: "reachable db \<Longrightarrow> reachable (snd (updateEmployee i pemployee db))"
| deleted_employee: "reachable db \<Longrightarrow> reachable (snd (deleteEmployee i db))"
| created_task: "reachable db \<Longrightarrow> reachable (snd (createTask now task db))"
| updated_task: "reachable db \<Longrightarrow> reachable (snd (updateTask now i ptask db))"
| deleted_task: "reachable db \<Longrightarrow> reachable (snd (deleteTask i db))"

text \<open>What the schema promises of a store: the foreign key, the two primary keys, the
  unique email, and the AUTOINCREMENT bound.\<close>

definition foreign_key_ok :: "store \<Rightarrow> bool" where
  "foreign_key_ok db =
     (\<forall>t \<in> set (tasks db). \<exists>e \<in> set (employees db). emp_id e = task_employeeId t)"

definition store_ok :: "store \<Rightarrow> bool" where
  "store_ok db =
     (foreign_key_ok db \<and>
      distinct (map emp_id (employees db)) \<and>
      distinct (map task_id (tasks db)) \<and>
      distinct (map emp_email (employees db)) \<and>
      (\<forall>e \<in> set (employees db). emp_id e \<le> employees_seq db) \<and>
      (\<forall>t \<in> set (tasks db). task_id t \<le> tasks_seq db))"

section \<open>The API layer (server/routes.ts)\<close>

text \<open>
  The \<^verbatim>\<open>:id\<close> of a path and the \<^verbatim>\<open>employee_id\<close> of a query are JavaScript strings,
  which \<^verbatim>\<open>parseInt\<close> reads code unit by code unit: they are lists of UTF-16 code units,
  given as numbers. \<open>js\<close> writes an ASCII literal as such a list.
\<close>

type_synonym utf16 = "nat list"

definition js :: "string \<Rightarrow> utf16" where
  "js s = map of_char s"

text \<open>
  \<^verbatim>\<open>parseInt(s)\<close> without a radix: leading white space is skipped, one sign is read, a
  \<^verbatim>\<open>0x\<close> prefix selects radix 16, and the longest run of digits that follows is the
  value; what comes after that run is ignored. With no digit the result is \<^verbatim>\<open>NaN\<close>, here
  \<open>None\<close>, which is what \<^verbatim>\<open>isNaN\<close> tests. White space is what ECMAScript trims: TAB, LF,
  VT, FF, CR, the space, the no-break space U+00A0, U+1680, U+2000 to U+200A, the line
  and paragraph separators U+2028 and U+2029, U+202F, U+205F, U+3000 and the byte order
  mark U+FEFF. (The value is kept as an exact integer; a JavaScript number rounds it above
  \<open>2 ^ 53\<close>.)
\<close>

definition is_space :: "nat \<Rightarrow> bool" where
  "is_space u =
     (u \<in> set [0x09, 0x0A, 0x0B, 0x0C, 0x0D, 0x20, 0xA0, 0x1680, 0x2028, 0x2029, 0x202F,
                0x205F, 0x3000, 0xFEFF] \<or>
      (0x2000 \<le> u \<and> u \<le> 0x200A))"

text \<open>The value of a digit: \<^verbatim>\<open>0\<close> to \<^verbatim>\<open>9\<close> (48 to 57), \<^verbatim>\<open>a\<close> to \<^verbatim>\<open>z\<close> (97 to 122) and
  \<^verbatim>\<open>A\<close> to \<^verbatim>\<open>Z\<close> (65 to 90).\<close>

definition digit_of :: "nat \<Rightarrow> nat option" where
  "digit_of u =
     (if 48 \<le> u \<and> u \<le> 57 then Some (u - 48)
      else if 97 \<le> u \<and> u \<le> 122 then Some (u - 87)
      else if 65 \<le> u \<and> u \<le> 90 then Some (u - 55)
      else None)"

definition is_radix_digit :: "nat \<Rightarrow> nat \<Rightarrow> bool" where
  "is_radix_digit radix u = (case digit_of u of Some d \<Rightarrow> d < radix | None \<Rightarrow> False)"

definition digits_value :: "nat \<Rightarrow> utf16 \<Rightarrow> nat" where
  "digits_value radix z = foldl (\<lambda>acc u. acc * radix + the (digit_of u)) 0 z"

text \<open>The sign characters are \<^verbatim>\<open>+\<close> (43) and \<^verbatim>\<open>-\<close> (45); the prefix is \<^verbatim>\<open>0\<close> (48)
  followed by \<^verbatim>\<open>x\<close> (120) or \<^verbatim>\<open>X\<close> (88).\<close>

definition parseInt :: "utf16 \<Rightarrow> int option" where
  "parseInt inputString =
     (let s = dropWhile is_space inputString;
          sign = (case s of u # r \<Rightarrow> if u = 45 then - 1 else 1 | [] \<Rightarrow> (1::int));
          s = (case s of u # r \<Rightarrow> if u = 43 \<or> u = 45 then r else s | [] \<Rightarrow> s);
          strip = (case s of a # b # r \<Rightarrow> a = 48 \<and> (b = 120 \<or> b = 88) | _ \<Rightarrow> False);
          radix = (if strip then 16 else 10);
          s = (if strip then drop 2 s else s);
          z = takeWhile (is_radix_digit radix) s
      in if z = [] then None else Some (sign * int (digits_value radix z)))"

text \<open>Two descriptions of an id string, used to state what the handlers reject: the
  numeric ids of the specification, a non-empty run of decimal digits; and the strings in
  which, after white space and one sign, no decimal digit follows.\<close>

definition is_decimal_digit :: "nat \<Rightarrow> bool" where
  "is_decimal_digit u = (48 \<le> u \<and> u \<le> 57)"

definition numeric_id :: "utf16 \<Rightarrow> bool" where
  "numeric_id s = (s \<noteq> [] \<and> list_all is_decimal_digit s)"

definition no_leading_number :: "utf16 \<Rightarrow> bool" where
  "no_leading_number s =
     (case dropWhile is_space s of
        [] \<Rightarrow> True
      | u # r \<Rightarrow>
          (case (if u = 43 \<or> u = 45 then r else u # r) of
             [] \<Rightarrow> True
           | d # r' \<Rightarrow> \<not> is_decimal_digit d))"

text \<open>A response: the status code and the JSON body.\<close>

datatype body =
    ErrorBody string
  | MessageBody string
  | UndefinedJson
  | EmployeeJson Employee
  | EmployeeWithTasksJson Employee "Task list"
  | TaskJson Task
  | TaskDetailJson Task string string
  | TaskListJson "(Task \<times> string) list"

type_synonym response = "nat \<times> body"

text \<open>The outcome of \<^verbatim>\<open>schema.safeParse(req.body)\<close>: the messages of the violated rules, or
  the parsed data. Zod is a library outside the repository; the handlers take its
  outcome as an argument.\<close>

datatype 'a SafeParse = ZodError "string list" | ZodSuccess 'a

fun join_comma :: "string list \<Rightarrow> string" where
  "join_comma [] = []"
| "join_comma [m] = m"
| "join_comma (m # ms) = m @ '', '' @ join_comma ms"

text \<open>\<^verbatim>\<open>message.includes(part)\<close>.\<close>

definition string_includes :: "string \<Rightarrow> string \<Rightarrow> bool" where
  "string_includes message part =
     list_ex (\<lambda>k. take (length part) (drop k message) = part) [0..<Suc (length message)]"

definition GET_employees_id :: "utf16 \<Rightarrow> store \<Rightarrow> response" where
  "GET_employees_id id_param db =
     (case parseInt id_param of
        None \<Rightarrow> (400, ErrorBody ''Invalid employee ID'')
      | Some i \<Rightarrow>
          (case getEmployeeWithTasks i db of
             None \<Rightarrow> (404, ErrorBody ''Employee not found'')
           | Some (employee, ts) \<Rightarrow> (200, EmployeeWithTasksJson employee ts)))"

definition POST_employees ::
  "string \<Rightarrow> InsertEmployee SafeParse \<Rightarrow> store \<Rightarrow> response \<times> store" where
  "POST_employees now validationResult db =
     (case validationResult of
        ZodError errors \<Rightarrow> ((400, ErrorBody (join_comma errors)), db)
      | ZodSuccess data \<Rightarrow>
          (case createEmployee now data db of
             (Inr (Some employee), db') \<Rightarrow> ((201, EmployeeJson employee), db')
           | (Inr None, db') \<Rightarrow> ((201, UndefinedJson), db')
           | (Inl (SqliteError message), db') \<Rightarrow>
               if string_includes message ''UNIQUE constraint''
               then ((400, ErrorBody ''Email already exists''), db')
               else ((500, ErrorBody ''Failed to create employee''), db')))"

definition PUT_employees_id ::
  "utf16 \<Rightarrow> PartialInsertEmployee SafeParse \<Rightarrow> store \<Rightarrow> response \<times> store" where
  "PUT_employees_id id_param validationResult db =
     (case parseInt id_param of
        None \<Rightarrow> ((400, ErrorBody ''Invalid employee ID''), db)
      | Some i \<Rightarrow>
          (case validationResult of
             ZodError errors \<Rightarrow> ((400, ErrorBody (join_comma errors)), db)
           | ZodSuccess data \<Rightarrow>
               (case updateEmployee i data db of
                  (Inr (Some employee), db') \<Rightarrow> ((200, EmployeeJson employee), db')
                | (Inr None, db') \<Rightarrow> ((404, ErrorBody ''Employee not found''), db')
                | (Inl (SqliteError message), db') \<Rightarrow>
                    if string_includes message ''UNIQUE constraint''
                    then ((400, ErrorBody ''Email already exists''), db')
                    else ((500, ErrorBody ''Failed to update employee''), db'))))"

definition DELETE_employees_id :: "utf16 \<Rightarrow> store \<Rightarrow> response \<times> store" where
  "DELETE_employees_id id_param db =
     (case parseInt id_param of
        None \<Rightarrow> ((400, ErrorBody ''Invalid employee ID''), db)
      | Some i \<Rightarrow>
          (case deleteEmployee i db of
             (False, db') \<Rightarrow> ((404, ErrorBody ''Employee not found''), db')
           | (True, db') \<Rightarrow> ((200, MessageBody ''Employee deleted successfully''), db')))"

text \<open>\<^verbatim>\<open>GET /api/tasks\<close> with the query parameters \<^verbatim>\<open>status\<close> and \<^verbatim>\<open>employee_id\<close>, each
  missing (\<open>None\<close>) or a string (\<^verbatim>\<open>status\<close> is only tested for emptiness and compared
  with text, so it stays a \<open>string\<close>). \<open>employeeId\<close> is \<^verbatim>\<open>undefined\<close> (\<open>None\<close>), \<^verbatim>\<open>NaN\<close>
  (\<open>Some None\<close>) or a number.\<close>

definition GET_tasks :: "string option \<Rightarrow> utf16 option \<Rightarrow> store \<Rightarrow> response" where
  "GET_tasks status employee_id db =
     (let employeeId = (case employee_id of
                          Some q \<Rightarrow> if q \<noteq> [] then Some (parseInt q) else None
                        | None \<Rightarrow> None)
      in if (case status of
               Some s \<Rightarrow> s \<noteq> [] \<and> s \<notin> set [''pending'', ''in-progress'', ''completed'']
             | None \<Rightarrow> False)
         then (400, ErrorBody ''Invalid status value'')
         else if (case employee_id of Some q \<Rightarrow> q \<noteq> [] | None \<Rightarrow> False) \<and> employeeId = Some None
         then (400, ErrorBody ''Invalid employee_id'')
         else (200, TaskListJson
                 (getAllTasks
                    (Some \<lparr>f_status = status,
                           f_employeeId = (case employeeId of Some (Some n) \<Rightarrow> Some n | _ \<Rightarrow> None)\<rparr>)
                    db)))"

definition GET_tasks_id :: "utf16 \<Rightarrow> store \<Rightarrow> response" where
  "GET_tasks_id id_param db =
     (case parseInt id_param of
        None \<Rightarrow> (400, ErrorBody ''Invalid task ID'')
      | Some i \<Rightarrow>
          (case getTaskById i db of
             None \<Rightarrow> (404, ErrorBody ''Task not found'')
           | Some (task, employeeName, employeeEmail) \<Rightarrow>
               (200, TaskDetailJson task employeeName employeeEmail)))"

definition POST_tasks :: "string \<Rightarrow> InsertTask SafeParse \<Rightarrow> store \<Rightarrow> response \<times> store" where
  "POST_tasks now validationResult db =
     (case validationResult of
        ZodError errors \<Rightarrow> ((400, ErrorBody (join_comma errors)), db)
      | ZodSuccess data \<Rightarrow>
          (case getEmployeeById (it_employeeId data) db of
             None \<Rightarrow> ((400, ErrorBody ''Employee not found''), db)
           | Some employee \<Rightarrow>
               (case createTask now data db of
                  (Inr (Some task), db') \<Rightarrow> ((201, TaskJson task), db')
                | (Inr None, db') \<Rightarrow> ((201, UndefinedJson), db')
                | (Inl err, db') \<Rightarrow> ((500, ErrorBody ''Failed to create task''), db'))))"

definition PUT_tasks_id ::
  "string \<Rightarrow> utf16 \<Rightarrow> PartialInsertTask SafeParse \<Rightarrow> store \<Rightarrow> response \<times> store" where
  "PUT_tasks_id now id_param validationResult db =
     (case parseInt id_param of
        None \<Rightarrow> ((400, ErrorBody ''Invalid task ID''), db)
      | Some i \<Rightarrow>
          (case validationResult of
             ZodError errors \<Rightarrow> ((400, ErrorBody (join_comma errors)), db)
           | ZodSuccess data \<Rightarrow>
               if (case pt_employeeId data of
                     Some n \<Rightarrow> n \<noteq> 0 \<and> getEmployeeById n db = None
                   | None \<Rightarrow> False)
               then ((400, ErrorBody ''Employee not found''), db)
               else (case updateTask now i data db of
                       (Inr (Some task), db') \<Rightarrow> ((200, TaskJson task), db')
                     | (Inr None, db') \<Rightarrow> ((404, ErrorBody ''Task not found''), db')
                     | (Inl err, db') \<Rightarrow> ((500, ErrorBody ''Failed to update task''), db'))))"

definition DELETE_tasks_id :: "utf16 \<Rightarrow> store \<Rightarrow> response \<times> store" where
  "DELETE_tasks_id id_param db =
     (case parseInt id_param of
        None \<Rightarrow> ((400, ErrorBody ''Invalid task ID''), db)
      | Some i \<Rightarrow>
          (case deleteTask i db of
             (False, db') \<Rightarrow> ((404, ErrorBody ''Task not found''), db')
           | (True, db') \<Rightarrow> ((200, MessageBody ''Task deleted successfully''), db')))"

section \<open>A small store for the examples\<close>

text \<open>Two employees and two tasks of the first one, built through the persistence
  layer from the migrated database.\<close>

definition demo_now :: string where
  "demo_now = ''2025-01-01 00:00:00''"

definition demo_later :: string where
  "demo_later = ''2025-01-02 00:00:00''"

definition demo_employee :: InsertEmployee where
  "demo_employee =
     \<lparr>ie_name = ''Raj Patel'', ie_email = ''raj.patel@company.com'',
      ie_department = ''Engineering'', ie_position = ''Senior Developer''\<rparr>"

definition demo_colleague :: InsertEmployee where
  "demo_colleague =
     \<lparr>ie_name = ''Priya Sharma'', ie_email = ''priya.sharma@company.com'',
      ie_department = ''Marketing'', ie_position = ''Content Manager''\<rparr>"

definition demo_task :: InsertTask where
  "demo_task =
     \<lparr>it_title = ''Implement user dashboard'', it_description = Undefined,
      it_status = None, it_employeeId = 1, it_dueDate = Undefined, it_priority = None\<rparr>"

definition demo_done_task :: InsertTask where
  "demo_done_task =
     \<lparr>it_title = ''Code review for API endpoints'',
      it_description = Given ''Review and approve new REST API endpoints'',
      it_status = Some COMPLETED, it_employeeId = 1, it_dueDate = Given ''2025-01-20'',
      it_priority = Some LOW\<rparr>"

definition demo_store :: store where
  "demo_store =
     snd (createTask demo_later demo_done_task
       (snd (createTask demo_now demo_task
         (snd (createEmployee demo_now demo_colleague
           (snd (createEmployee demo_now demo_employee empty_store)))))))"

definition demo_raj :: Employee where
  "demo_raj =
     \<lparr>emp_id = 1, emp_name = ''Raj Patel'', emp_email = ''raj.patel@company.com'',
      emp_department = ''Engineering'', emp_position = ''Senior Developer'',
      emp_createdAt = ''2025-01-01 00:00:00''\<rparr>"

definition demo_priya :: Employee where
  "demo_priya =
     \<lparr>emp_id = 2, emp_name = ''Priya Sharma'', emp_email = ''priya.sharma@company.com'',
      emp_department = ''Marketing'', emp_position = ''Content Manager'',
      emp_createdAt = ''2025-01-01 00:00:00''\<rparr>"

definition demo_row1 :: Task where
  "demo_row1 =
     \<lparr>task_id = 1, task_title = ''Implement user dashboard'', task_description = None,
      task_status = PENDING, task_employeeId = 1, task_dueDate = None,
      task_priority = MEDIUM, task_createdAt = ''2025-01-01 00:00:00'',
      task_updatedAt = ''2025-01-01 00:00:00''\<rparr>"

definition demo_row2 :: Task where
  "demo_row2 =
     \<lparr>task_id = 2, task_title = ''Code review for API endpoints'',
      task_description = Some ''Review and approve new REST API endpoints'',
      task_status = COMPLETED, task_employeeId = 1, task_dueDate = Some ''2025-01-20'',
      task_priority = LOW, task_createdAt = ''2025-01-02 00:00:00'',
      task_updatedAt = ''2025-01-02 00:00:00''\<rparr>"

text \<open>Stores with one employee and many tasks: \<open>create_many n task\<close> calls
  \<open>createTask\<close> \<open>n\<close> times. One has 10 tasks of which 3 are completed, the other 40 of
  which 23 are completed.\<close>

fun create_many :: "nat \<Rightarrow> InsertTask \<Rightarrow> store \<Rightarrow> store" where
  "create_many 0 task db = db"
| "create_many (Suc n) task db = create_many n task (snd (createTask demo_now task db))"

definition ten_tasks_store :: store where
  "ten_tasks_store =
     create_many 7 demo_task
       (create_many 3 demo_done_task (snd (createEmployee demo_now demo_employee empty_store)))"

definition forty_tasks_store :: store where
  "forty_tasks_store =
     create_many 17 demo_task
       (create_many 23 demo_done_task (snd (createEmployee demo_now demo_employee empty_store)))"

text \<open>The payload \<^verbatim>\<open>{}\<close> of an update.\<close>

definition empty_patch :: PartialInsertTask where
  "empty_patch =
     \<lparr>pt_title = None, pt_description = Undefined, pt_status = None, pt_employeeId = None,
      pt_dueDate = Undefined, pt_priority = None\<rparr>"

section \<open>Invariants of the store\<close>

lemma insert_employees_ok:
  "store_ok db \<Longrightarrow> store_ok (snd (insert_employees now n e d p db))"
  by (auto simp: store_ok_def foreign_key_ok_def insert_employees_def Let_def)

lemma insert_tasks_ok:
  "store_ok db \<Longrightarrow> store_ok (snd (insert_tasks now ti de st ei du pr db))"
  by (auto simp: store_ok_def foreign_key_ok_def insert_tasks_def Let_def)

lemma delete_employees_ok:
  "store_ok db \<Longrightarrow> store_ok (snd (delete_employees i db))"
  apply (auto simp: store_ok_def foreign_key_ok_def delete_employees_def Let_def distinct_map_filter)
  apply metis
  done

lemma delete_tasks_ok:
  "store_ok db \<Longrightarrow> store_ok (snd (delete_tasks i db))"
  by (auto simp: store_ok_def foreign_key_ok_def delete_tasks_def Let_def distinct_map_filter)


lemma set_employee_id [simp]: "emp_id (set_employee p e) = emp_id e"
  by (simp add: set_employee_def)

lemma set_task_id [simp]: "task_id (set_task now p t) = task_id t"
  by (simp add: set_task_def)

lemma map_emp_id_update:
  "map emp_id (map (\<lambda>e. if emp_id e = i then set_employee p e else e) es) = map emp_id es"
  by (induction es) auto

lemma map_task_id_update:
  "map task_id (map (\<lambda>t. if task_id t = i then set_task now p t else t) ts) = map task_id ts"
  by (induction ts) auto

lemma distinct_email_update:
  assumes "distinct (map emp_email es)" "distinct (map emp_id es)"
    and "\<And>v. pe_email p = Some v \<Longrightarrow> \<forall>e \<in> set es. emp_id e \<noteq> i \<longrightarrow> emp_email e \<noteq> v"
  shows "distinct (map emp_email (map (\<lambda>e. if emp_id e = i then set_employee p e else e) es))"
  using assms
proof (induction es)
  case Nil
  then show ?case by simp
next
  case (Cons a es)
  then show ?case
    by (cases "pe_email p") (auto simp: set_employee_def image_iff)
qed

lemma update_employees_ok:
  assumes ok: "store_ok db"
  shows "store_ok (snd (update_employees p i db))"
proof (cases "fst (update_employees p i db)")
  case (Inl err)
  then have "snd (update_employees p i db) = db"
    by (auto simp: update_employees_def split: if_splits)
  with ok show ?thesis by simp
next
  case (Inr changes)
  let ?upd = "\<lambda>e. if emp_id e = i then set_employee p e else e"
  from Inr have db': "snd (update_employees p i db) = db\<lparr>employees := map ?upd (employees db)\<rparr>"
    by (auto simp: update_employees_def split: if_splits)
  have emails: "distinct (map emp_email (map ?upd (employees db)))"
  proof (cases "\<exists>e \<in> set (employees db). emp_id e = i")
    case True
    with Inr have "\<And>v. pe_email p = Some v \<Longrightarrow>
        \<forall>e \<in> set (employees db). emp_id e \<noteq> i \<longrightarrow> emp_email e \<noteq> v"
      by (auto simp: update_employees_def split: if_splits option.splits)
    with ok show ?thesis
      by (intro distinct_email_update) (auto simp: store_ok_def)
  next
    case False
    then have "map ?upd (employees db) = employees db"
      by (intro map_idI) auto
    with ok show ?thesis by (simp add: store_ok_def)
  qed
  have "foreign_key_ok (db\<lparr>employees := map ?upd (employees db)\<rparr>)"
    unfolding foreign_key_ok_def
  proof
    fix t assume "t \<in> set (tasks (db\<lparr>employees := map ?upd (employees db)\<rparr>))"
    with ok obtain e where e: "e \<in> set (employees db)" "emp_id e = task_employeeId t"
      by (auto simp: store_ok_def foreign_key_ok_def)
    then have "?upd e \<in> set (map ?upd (employees db))" "emp_id (?upd e) = task_employeeId t"
      by auto
    then show "\<exists>e \<in> set (employees (db\<lparr>employees := map ?upd (employees db)\<rparr>)).
                 emp_id e = task_employeeId t"
      by (intro bexI [of _ "?upd e"]) simp_all
  qed
  moreover have "distinct (map emp_id (map ?upd (employees db)))"
    unfolding map_emp_id_update using ok by (simp add: store_ok_def)
  moreover from ok have "\<forall>e \<in> set (map ?upd (employees db)). emp_id e \<le> employees_seq db"
    unfolding store_ok_def by auto
  ultimately show ?thesis
    using ok emails unfolding db' store_ok_def by simp
qed

lemma update_tasks_ok:
  assumes ok: "store_ok db"
  shows "store_ok (snd (update_tasks now p i db))"
proof (cases "fst (update_tasks now p i db)")
  case (Inl err)
  then have "snd (update_tasks now p i db) = db"
    by (auto simp: update_tasks_def split: if_splits)
  with ok show ?thesis by simp
next
  case (Inr changes)
  let ?upd = "\<lambda>t. if task_id t = i then set_task now p t else t"
  from Inr have db': "snd (update_tasks now p i db) = db\<lparr>tasks := map ?upd (tasks db)\<rparr>"
    by (auto simp: update_tasks_def split: if_splits)
  have fk: "foreign_key_ok (db\<lparr>tasks := map ?upd (tasks db)\<rparr>)"
  proof (cases "\<exists>t \<in> set (tasks db). task_id t = i")
    case True
    with Inr have new: "\<And>v. pt_employeeId p = Some v \<Longrightarrow> \<exists>e \<in> set (employees db). emp_id e = v"
      by (auto simp: update_tasks_def split: if_splits option.splits)
    show ?thesis
      unfolding foreign_key_ok_def
    proof
      fix t' assume "t' \<in> set (tasks (db\<lparr>tasks := map ?upd (tasks db)\<rparr>))"
      then obtain t where t: "t \<in> set (tasks db)" and t': "t' = ?upd t" by auto
      from ok t have old: "\<exists>e \<in> set (employees db). emp_id e = task_employeeId t"
        by (auto simp: store_ok_def foreign_key_ok_def)
      show "\<exists>e \<in> set (employees (db\<lparr>tasks := map ?upd (tasks db)\<rparr>)). emp_id e = task_employeeId t'"
        using old new t' by (cases "pt_employeeId p") (auto simp: set_task_def)
    qed
  next
    case False
    then have "map ?upd (tasks db) = tasks db"
      by (intro map_idI) auto
    with ok show ?thesis by (simp add: store_ok_def)
  qed
  moreover have "distinct (map task_id (map ?upd (tasks db)))"
    unfolding map_task_id_update using ok by (simp add: store_ok_def)
  moreover from ok have "\<forall>t \<in> set (map ?upd (tasks db)). task_id t \<le> tasks_seq db"
    unfolding store_ok_def by auto
  ultimately show ?thesis
    using ok unfolding db' store_ok_def by simp
qed

lemma seed_employees_ok:
  "store_ok db \<Longrightarrow> store_ok (snd (seed_employees clock k rows db))"
proof (induction rows arbitrary: k db)
  case Nil
  then show ?case by simp
next
  case (Cons row rows)
  obtain n e d p where row: "row = (n, e, d, p)" by (cases row) auto
  show ?case
  proof (cases "insert_employees (clock k) n e d p db")
    case (Pair r db')
    with Cons.prems have "store_ok db'"
      using insert_employees_ok [of db "clock k" n e d p] by simp
    with Pair Cons.IH show ?thesis
      by (cases r) (simp_all add: row)
  qed
qed

lemma seed_tasks_ok:
  "store_ok db \<Longrightarrow> store_ok (snd (seed_tasks clock k rows db))"
proof (induction rows arbitrary: k db)
  case Nil
  then show ?case by simp
next
  case (Cons row rows)
  obtain ti de st ei du pr where row: "row = (ti, de, st, ei, du, pr)" by (cases row) auto
  show ?case
  proof (cases "insert_tasks (clock k) ti (Some de) st ei (Some du) pr db")
    case (Pair r db')
    with Cons.prems have "store_ok db'"
      using insert_tasks_ok [of db "clock k" ti "Some de" st ei "Some du" pr] by simp
    with Pair Cons.IH show ?thesis
      by (cases r) (simp_all add: row)
  qed
qed

lemma seedDatabase_ok:
  assumes "store_ok db"
  shows "store_ok (snd (seedDatabase clock db))"
proof (cases "seed_employees clock 0 sample_employees db")
  case (Pair r db')
  with assms have "store_ok db'"
    using seed_employees_ok [of db clock 0 sample_employees] by simp
  with Pair assms show ?thesis
    by (cases r) (simp_all add: seedDatabase_def seed_tasks_ok)
qed

lemma createEmployee_snd:
  "snd (createEmployee now employee db) =
     snd (insert_employees now (ie_name employee) (ie_email employee)
            (ie_department employee) (ie_position employee) db)"
  by (simp add: createEmployee_def split: prod.splits sum.splits)

lemma createTask_snd:
  "snd (createTask now task db) =
     snd (insert_tasks now (it_title task) (or_null (it_description task))
            (case it_status task of Some v \<Rightarrow> v | None \<Rightarrow> PENDING) (it_employeeId task)
            (or_null (it_dueDate task))
            (case it_priority task of Some v \<Rightarrow> v | None \<Rightarrow> MEDIUM) db)"
  by (simp add: createTask_def split: prod.splits sum.splits)

lemma updateEmployee_snd:
  "snd (updateEmployee i p db) = db \<or> snd (updateEmployee i p db) = snd (update_employees p i db)"
  by (simp add: updateEmployee_def split: prod.splits sum.splits option.splits)

lemma updateTask_snd:
  "snd (updateTask now i p db) = db \<or> snd (updateTask now i p db) = snd (update_tasks now p i db)"
  by (simp add: updateTask_def split: prod.splits sum.splits option.splits)

lemma deleteEmployee_snd: "snd (deleteEmployee i db) = snd (delete_employees i db)"
  by (simp add: deleteEmployee_def split: prod.splits)

lemma deleteTask_snd: "snd (deleteTask i db) = snd (delete_tasks i db)"
  by (simp add: deleteTask_def split: prod.splits)

lemma empty_store_ok: "store_ok empty_store"
  by (simp add: store_ok_def foreign_key_ok_def empty_store_def)

lemma reachable_store_ok: "reachable db \<Longrightarrow> store_ok db"
proof (induction rule: reachable.induct)
  case migrated
  show ?case by (rule empty_store_ok)
next
  case (seeded db clock)
  then show ?case by (simp add: seedDatabase_ok)
next
  case (created_employee db now employee)
  then show ?case by (simp add: createEmployee_snd insert_employees_ok)
next
  case (updated_employee db i pemployee)
  then show ?case
    using updateEmployee_snd [of i pemployee db] update_employees_ok [of db pemployee i] by auto
next
  case (deleted_employee db i)
  then show ?case by (simp add: deleteEmployee_snd delete_employees_ok)
next
  case (created_task db now task)
  then show ?case by (simp add: createTask_snd insert_tasks_ok)
next
  case (updated_task db now i ptask)
  then show ?case
    using updateTask_snd [of now i ptask db] update_tasks_ok [of db now ptask i] by auto
next
  case (deleted_task db i)
  then show ?case by (simp add: deleteTask_snd delete_tasks_ok)
qed

section \<open>The example store\<close>

lemma demo_store_eq:
  "demo_store = \<lparr>employees = [demo_raj, demo_priya], tasks = [demo_row1, demo_row2],
                  employees_seq = 2, tasks_seq = 2\<rparr>"
  by (simp add: demo_store_def createTask_def createEmployee_def insert_tasks_def
      insert_employees_def empty_store_def demo_employee_def demo_colleague_def demo_task_def
      demo_done_task_def demo_now_def demo_later_def demo_raj_def demo_priya_def
      demo_row1_def demo_row2_def or_null_def Let_def)

lemma demo_store_reachable: "reachable demo_store"
  unfolding demo_store_def by (intro reachable.intros)


section \<open>Deleting an employee\<close>

lemma set_getAllTasks:
  "set (getAllTasks filters db) =
     {(t, emp_name e) | t e. t \<in> set (tasks db) \<and> e \<in> set (employees db) \<and>
        task_employeeId t = emp_id e \<and> status_condition filters t \<and>
        employeeId_condition filters t}"
  by (auto simp: getAllTasks_def order_by_desc_def tasks_join_employees_def image_iff)

lemma set_getAllEmployees: "set (getAllEmployees db) = set (employees db)"
  by (simp add: getAllEmployees_def order_by_def)

lemma delete_employees_rows:
  assumes "foreign_key_ok db"
  shows "employees (snd (delete_employees i db)) = filter (\<lambda>e. emp_id e \<noteq> i) (employees db)"
    and "tasks (snd (delete_employees i db)) = filter (\<lambda>t. task_employeeId t \<noteq> i) (tasks db)"
proof -
  show "employees (snd (delete_employees i db)) = filter (\<lambda>e. emp_id e \<noteq> i) (employees db)"
    by (auto simp: delete_employees_def Let_def filter_empty_conv filter_id_conv)
  show "tasks (snd (delete_employees i db)) = filter (\<lambda>t. task_employeeId t \<noteq> i) (tasks db)"
  proof (cases "\<exists>e \<in> set (employees db). emp_id e = i")
    case True
    then show ?thesis
      by (auto simp: delete_employees_def Let_def filter_empty_conv)
  next
    case False
    with assms have "\<forall>t \<in> set (tasks db). task_employeeId t \<noteq> i"
      by (auto simp: foreign_key_ok_def)
    then have "filter (\<lambda>t. task_employeeId t \<noteq> i) (tasks db) = tasks db"
      by (simp add: filter_id_conv)
    with False show ?thesis
      by (auto simp: delete_employees_def Let_def filter_empty_conv)
  qed
qed

text \<open>
  Claim C1. In a reachable store, \<open>deleteEmployee i\<close> leaves exactly the employees whose
  id is not \<open>i\<close> and exactly the tasks whose \<open>employeeId\<close> is not \<open>i\<close>: no task of the
  deleted employee is listed by \<open>getAllTasks\<close> afterwards, \<open>getAllEmployees\<close> no longer
  lists the employee, and the result tells whether a row was deleted. Every reachable
  store, the one after the call included, has no task whose \<open>employeeId\<close> names a
  missing employee.
\<close>

theorem deleteEmployee_cascade:
  assumes "reachable db"
  shows "employees (snd (deleteEmployee i db)) = filter (\<lambda>e. emp_id e \<noteq> i) (employees db) \<and>
         tasks (snd (deleteEmployee i db)) = filter (\<lambda>t. task_employeeId t \<noteq> i) (tasks db) \<and>
         (\<forall>t \<in> set (tasks db). task_employeeId t = i \<longrightarrow>
            t \<notin> fst ` set (getAllTasks None (snd (deleteEmployee i db)))) \<and>
         (\<forall>e \<in> set (getAllEmployees (snd (deleteEmployee i db))). emp_id e \<noteq> i) \<and>
         (fst (deleteEmployee i db) \<longleftrightarrow> (\<exists>e \<in> set (employees db). emp_id e = i)) \<and>
         foreign_key_ok db \<and>
         foreign_key_ok (snd (deleteEmployee i db))"
proof -
  from assms have ok: "store_ok db" by (rule reachable_store_ok)
  then have fk: "foreign_key_ok db" by (simp add: store_ok_def)
  have es: "employees (snd (deleteEmployee i db)) = filter (\<lambda>e. emp_id e \<noteq> i) (employees db)"
    using fk by (simp add: deleteEmployee_snd delete_employees_rows)
  have ts: "tasks (snd (deleteEmployee i db)) = filter (\<lambda>t. task_employeeId t \<noteq> i) (tasks db)"
    using fk by (simp add: deleteEmployee_snd delete_employees_rows)
  have listed: "\<forall>t \<in> set (tasks db). task_employeeId t = i \<longrightarrow>
           t \<notin> fst ` set (getAllTasks None (snd (deleteEmployee i db)))"
    by (auto simp: set_getAllTasks ts)
  have gone: "\<forall>e \<in> set (getAllEmployees (snd (deleteEmployee i db))). emp_id e \<noteq> i"
    by (simp add: set_getAllEmployees es)
  have result: "fst (deleteEmployee i db) \<longleftrightarrow> (\<exists>e \<in> set (employees db). emp_id e = i)"
    by (auto simp: deleteEmployee_def delete_employees_def Let_def filter_empty_conv
        split: prod.splits)
  have "reachable (snd (deleteEmployee i db))"
    using assms by (rule reachable.deleted_employee)
  then have fk': "foreign_key_ok (snd (deleteEmployee i db))"
    using reachable_store_ok by (simp add: store_ok_def)
  from es ts listed gone result fk fk' show ?thesis by blast
qed

lemma demo_deleteEmployee:
  "deleteEmployee 1 demo_store =
     (True, \<lparr>employees = [demo_priya], tasks = [], employees_seq = 2, tasks_seq = 2\<rparr>)"
  by (simp add: demo_store_eq deleteEmployee_def delete_employees_def demo_raj_def
      demo_priya_def demo_row1_def demo_row2_def)

theorem deleteEmployee_cascade_witness:
  "reachable demo_store \<and>
   employees (snd (deleteEmployee 1 demo_store)) = [demo_priya] \<and>
   tasks (snd (deleteEmployee 1 demo_store)) = [] \<and>
   demo_row1 \<notin> fst ` set (getAllTasks None (snd (deleteEmployee 1 demo_store))) \<and>
   demo_row2 \<notin> fst ` set (getAllTasks None (snd (deleteEmployee 1 demo_store))) \<and>
   demo_raj \<notin> set (getAllEmployees (snd (deleteEmployee 1 demo_store))) \<and>
   fst (deleteEmployee 1 demo_store) \<and>
   foreign_key_ok demo_store \<and>
   foreign_key_ok (snd (deleteEmployee 1 demo_store))"
proof -
  note c = deleteEmployee_cascade [OF demo_store_reachable, of 1]
  have rows: "demo_row1 \<in> set (tasks demo_store)" "task_employeeId demo_row1 = 1"
    "demo_row2 \<in> set (tasks demo_store)" "task_employeeId demo_row2 = 1"
    by (simp_all add: demo_store_eq demo_row1_def demo_row2_def)
  have raj: "emp_id demo_raj = 1" by (simp add: demo_raj_def)
  from c rows have "demo_row1 \<notin> fst ` set (getAllTasks None (snd (deleteEmployee 1 demo_store)))"
    "demo_row2 \<notin> fst ` set (getAllTasks None (snd (deleteEmployee 1 demo_store)))"
    by blast+
  moreover from c raj have "demo_raj \<notin> set (getAllEmployees (snd (deleteEmployee 1 demo_store)))"
    by blast
  moreover have "employees (snd (deleteEmployee 1 demo_store)) = [demo_priya]"
    "tasks (snd (deleteEmployee 1 demo_store)) = []" "fst (deleteEmployee 1 demo_store)"
    by (simp_all add: demo_deleteEmployee)
  ultimately show ?thesis
    using c demo_store_reachable by blast
qed

section \<open>Duplicate emails and missing employees\<close>

lemma getEmployeeById_None_iff:
  "getEmployeeById i db = None \<longleftrightarrow> \<not> (\<exists>e \<in> set (employees db). emp_id e = i)"
  by (auto simp: getEmployeeById_def find_None_iff)

lemma unique_message: "string_includes ''UNIQUE constraint failed: employees.email'' ''UNIQUE constraint''"
  by code_simp

text \<open>
  Claim C2. \<open>createEmployee\<close> fails exactly when an employee with the same email (compared
  character by character) exists. It then raises the engine's UNIQUE error and leaves the
  store as it was, and \<^verbatim>\<open>POST /api/employees\<close> answers 400 with the message
  \<^verbatim>\<open>Email already exists\<close>.
\<close>

theorem createEmployee_duplicate_email:
  "(isl (fst (createEmployee now employee db)) \<longleftrightarrow>
      (\<exists>e \<in> set (employees db). emp_email e = ie_email employee)) \<and>
   ((\<exists>e \<in> set (employees db). emp_email e = ie_email employee) \<longrightarrow>
      createEmployee now employee db =
        (Inl (SqliteError ''UNIQUE constraint failed: employees.email''), db) \<and>
      POST_employees now (ZodSuccess employee) db =
        ((400, ErrorBody ''Email already exists''), db))"
proof (cases "\<exists>e \<in> set (employees db). emp_email e = ie_email employee")
  case True
  then have c: "createEmployee now employee db =
      (Inl (SqliteError ''UNIQUE constraint failed: employees.email''), db)"
    by (simp add: createEmployee_def insert_employees_def)
  then have "POST_employees now (ZodSuccess employee) db =
      ((400, ErrorBody ''Email already exists''), db)"
    by (simp add: POST_employees_def unique_message)
  with c True show ?thesis by simp
next
  case False
  then have "\<not> isl (fst (createEmployee now employee db))"
    by (simp add: createEmployee_def insert_employees_def Let_def)
  with False show ?thesis by simp
qed

theorem createEmployee_duplicate_email_witness:
  "createEmployee demo_later demo_employee demo_store =
     (Inl (SqliteError ''UNIQUE constraint failed: employees.email''), demo_store) \<and>
   POST_employees demo_later (ZodSuccess demo_employee) demo_store =
     ((400, ErrorBody ''Email already exists''), demo_store) \<and>
   \<not> isl (fst (createEmployee demo_later
                 (demo_employee\<lparr>ie_email := ''Raj.Patel@company.com''\<rparr>) demo_store))"
proof -
  have dup: "\<exists>e \<in> set (employees demo_store). emp_email e = ie_email demo_employee"
    by (simp add: demo_store_eq demo_employee_def demo_raj_def)
  have fresh: "\<not> (\<exists>e \<in> set (employees demo_store).
      emp_email e = ie_email (demo_employee\<lparr>ie_email := ''Raj.Patel@company.com''\<rparr>))"
    by (simp add: demo_store_eq demo_raj_def demo_priya_def)
  show ?thesis
    using dup fresh
      createEmployee_duplicate_email [of demo_later demo_employee demo_store]
      createEmployee_duplicate_email
        [of demo_later "demo_employee\<lparr>ie_email := ''Raj.Patel@company.com''\<rparr>" demo_store]
    by blast
qed

text \<open>
  Claim C10. Whenever \<open>updateEmployee\<close> throws, the store after the call is the store
  before it. It throws the UNIQUE error when the employee exists and the supplied email is
  that of another employee; \<^verbatim>\<open>PUT /api/employees/:id\<close> then answers 400 and the store is
  unchanged.
\<close>

theorem updateEmployee_collision_unchanged:
  "(isl (fst (updateEmployee i p db)) \<longrightarrow> snd (updateEmployee i p db) = db) \<and>
   ((\<exists>e \<in> set (employees db). emp_id e = i) \<and> pe_email p = Some v \<and>
    (\<exists>e \<in> set (employees db). emp_id e \<noteq> i \<and> emp_email e = v) \<longrightarrow>
      updateEmployee i p db =
        (Inl (SqliteError ''UNIQUE constraint failed: employees.email''), db) \<and>
      (parseInt id_param = Some i \<longrightarrow>
         PUT_employees_id id_param (ZodSuccess p) db =
           ((400, ErrorBody ''Email already exists''), db)))"
proof -
  have unchanged: "isl (fst (updateEmployee i p db)) \<longrightarrow> snd (updateEmployee i p db) = db"
    by (auto simp: updateEmployee_def update_employees_def
        split: option.splits if_splits prod.splits sum.splits)
  have collide: "updateEmployee i p db =
        (Inl (SqliteError ''UNIQUE constraint failed: employees.email''), db)"
    if "\<exists>e \<in> set (employees db). emp_id e = i" "pe_email p = Some v"
      "\<exists>e \<in> set (employees db). emp_id e \<noteq> i \<and> emp_email e = v"
  proof -
    from that(1) obtain existing where "getEmployeeById i db = Some existing"
      using getEmployeeById_None_iff [of i db] by (cases "getEmployeeById i db") auto
    with that show ?thesis
      by (simp add: updateEmployee_def update_employees_def)
  qed
  then have "PUT_employees_id id_param (ZodSuccess p) db =
           ((400, ErrorBody ''Email already exists''), db)"
    if "\<exists>e \<in> set (employees db). emp_id e = i" "pe_email p = Some v"
      "\<exists>e \<in> set (employees db). emp_id e \<noteq> i \<and> emp_email e = v" "parseInt id_param = Some i"
    using that by (simp add: PUT_employees_id_def unique_message)
  with unchanged collide show ?thesis by blast
qed

lemma js_simps: "js [] = []" "js (c # cs) = of_char c # js cs"
  by (simp_all add: js_def)

lemmas parseInt_eval =
  parseInt_def js_simps is_space_def is_radix_digit_def digit_of_def digits_value_def Let_def

lemma parseInt_2: "parseInt (js ''2'') = Some 2"
  by (simp add: parseInt_eval)

theorem updateEmployee_collision_unchanged_witness:
  "updateEmployee 2 \<lparr>pe_name = Some ''Priya S.'', pe_email = Some ''raj.patel@company.com'',
                      pe_department = None, pe_position = None\<rparr> demo_store =
     (Inl (SqliteError ''UNIQUE constraint failed: employees.email''), demo_store) \<and>
   PUT_employees_id (js ''2'')
     (ZodSuccess \<lparr>pe_name = Some ''Priya S.'', pe_email = Some ''raj.patel@company.com'',
                  pe_department = None, pe_position = None\<rparr>) demo_store =
     ((400, ErrorBody ''Email already exists''), demo_store) \<and>
   getEmployeeById 2 demo_store = Some demo_priya"
proof -
  let ?p = "\<lparr>pe_name = Some ''Priya S.'', pe_email = Some ''raj.patel@company.com'',
             pe_department = None, pe_position = None\<rparr>"
  have a: "\<exists>e \<in> set (employees demo_store). emp_id e = 2"
    by (simp add: demo_store_eq demo_priya_def)
  have b: "pe_email ?p = Some ''raj.patel@company.com''" by simp
  have c: "\<exists>e \<in> set (employees demo_store). emp_id e \<noteq> 2 \<and> emp_email e = ''raj.patel@company.com''"
    by (simp add: demo_store_eq demo_raj_def)
  have d: "getEmployeeById 2 demo_store = Some demo_priya"
    by (simp add: demo_store_eq getEmployeeById_def demo_raj_def demo_priya_def)
  show ?thesis
    using a b c d parseInt_2
      updateEmployee_collision_unchanged
        [of 2 ?p demo_store "''raj.patel@company.com''" "js ''2''"]
    by blast
qed

text \<open>
  Claim C6. \<^verbatim>\<open>POST /api/tasks\<close> with a payload whose \<open>employeeId\<close> names no employee
  answers 400 with \<^verbatim>\<open>Employee not found\<close> and leaves the store as it was (a payload that
  fails validation is answered 400 as well); \<open>createTask\<close> itself, called with such a
  payload, raises the foreign key error and inserts nothing.
\<close>

theorem createTask_missing_employee:
  "POST_tasks now (ZodError errors) db = ((400, ErrorBody (join_comma errors)), db) \<and>
   (getEmployeeById (it_employeeId task) db = None \<longrightarrow>
      POST_tasks now (ZodSuccess task) db = ((400, ErrorBody ''Employee not found''), db) \<and>
      createTask now task db = (Inl (SqliteError ''FOREIGN KEY constraint failed''), db))"
proof -
  have "POST_tasks now (ZodError errors) db = ((400, ErrorBody (join_comma errors)), db)"
    by (simp add: POST_tasks_def)
  moreover have "POST_tasks now (ZodSuccess task) db = ((400, ErrorBody ''Employee not found''), db)"
    if "getEmployeeById (it_employeeId task) db = None"
    using that by (simp add: POST_tasks_def)
  moreover have "createTask now task db = (Inl (SqliteError ''FOREIGN KEY constraint failed''), db)"
    if "getEmployeeById (it_employeeId task) db = None"
    using that by (simp add: createTask_def insert_tasks_def getEmployeeById_None_iff)
  ultimately show ?thesis by blast
qed

theorem createTask_missing_employee_witness:
  "getEmployeeById 7 demo_store = None \<and>
   POST_tasks demo_later (ZodSuccess (demo_task\<lparr>it_employeeId := 7\<rparr>)) demo_store =
     ((400, ErrorBody ''Employee not found''), demo_store) \<and>
   createTask demo_later (demo_task\<lparr>it_employeeId := 7\<rparr>) demo_store =
     (Inl (SqliteError ''FOREIGN KEY constraint failed''), demo_store)"
proof -
  have none: "getEmployeeById (it_employeeId (demo_task\<lparr>it_employeeId := 7\<rparr>)) demo_store = None"
    by (simp add: demo_store_eq getEmployeeById_def demo_raj_def demo_priya_def)
  then show ?thesis
    using createTask_missing_employee [of demo_later "[]" demo_store "demo_task\<lparr>it_employeeId := 7\<rparr>"]
    by simp
qed

section \<open>Updating and creating tasks\<close>

lemma find_task_update:
  "find (\<lambda>t. task_id t = i) (map (\<lambda>t. if task_id t = i then set_task now p t else t) ts) =
     map_option (set_task now p) (find (\<lambda>t. task_id t = i) ts)"
  by (induction ts) auto

lemma filter_task_update:
  "filter (\<lambda>t. task_id t \<noteq> i) (map (\<lambda>t. if task_id t = i then set_task now p t else t) ts) =
     filter (\<lambda>t. task_id t \<noteq> i) ts"
  by (induction ts) auto

lemma updateTask_found:
  assumes "find (\<lambda>t. task_id t = i) (tasks db) = Some existing"
    and "\<forall>v. pt_employeeId p = Some v \<longrightarrow> (\<exists>e \<in> set (employees db). emp_id e = v)"
  shows "updateTask now i p db =
           (Inr (Some (set_task now p existing)),
            db\<lparr>tasks := map (\<lambda>t. if task_id t = i then set_task now p t else t) (tasks db)\<rparr>)"
proof -
  from assms(2) have "update_tasks now p i db =
      (Inr (length (filter (\<lambda>t. task_id t = i) (tasks db))),
       db\<lparr>tasks := map (\<lambda>t. if task_id t = i then set_task now p t else t) (tasks db)\<rparr>)"
    by (cases "pt_employeeId p") (auto simp: update_tasks_def)
  with assms(1) show ?thesis
    by (simp add: updateTask_def find_task_update)
qed

text \<open>
  Claim C5, as amended. For an id that no task has, \<open>updateTask\<close> returns \<^verbatim>\<open>undefined\<close>
  and changes nothing. For the id of a task, and a payload whose \<open>employeeId\<close>, when
  supplied, names an employee, it returns the row with the supplied fields replaced,
  every other field as before and \<open>updatedAt\<close> set to the current time; that row is the
  stored one, the other tasks and the employees are untouched. With the empty payload the
  row returned is the old one with \<open>updatedAt\<close> set to the current time, which differs
  from the old row as soon as the clock has moved. A payload whose \<open>employeeId\<close> names no
  employee makes the call throw the foreign key error, and nothing is changed.
\<close>

theorem updateTask_refreshes_updatedAt:
  "(find (\<lambda>t. task_id t = i) (tasks db) = None \<longrightarrow> updateTask now i p db = (Inr None, db)) \<and>
   (find (\<lambda>t. task_id t = i) (tasks db) = Some existing \<longrightarrow>
      (\<forall>v. pt_employeeId p = Some v \<longrightarrow> (\<exists>e \<in> set (employees db). emp_id e = v)) \<longrightarrow>
        fst (updateTask now i p db) =
          Inr (Some \<lparr>task_id = task_id existing,
                     task_title = (case pt_title p of Some v \<Rightarrow> v | None \<Rightarrow> task_title existing),
                     task_description =
                       (case pt_description p of
                          Undefined \<Rightarrow> task_description existing | Null \<Rightarrow> None
                        | Given v \<Rightarrow> Some v),
                     task_status =
                       (case pt_status p of Some v \<Rightarrow> v | None \<Rightarrow> task_status existing),
                     task_employeeId =
                       (case pt_employeeId p of Some v \<Rightarrow> v | None \<Rightarrow> task_employeeId existing),
                     task_dueDate =
                       (case pt_dueDate p of
                          Undefined \<Rightarrow> task_dueDate existing | Null \<Rightarrow> None
                        | Given v \<Rightarrow> Some v),
                     task_priority =
                       (case pt_priority p of Some v \<Rightarrow> v | None \<Rightarrow> task_priority existing),
                     task_createdAt = task_createdAt existing,
                     task_updatedAt = now\<rparr>) \<and>
        find (\<lambda>t. task_id t = i) (tasks (snd (updateTask now i p db))) =
          projr (fst (updateTask now i p db)) \<and>
        filter (\<lambda>t. task_id t \<noteq> i) (tasks (snd (updateTask now i p db))) =
          filter (\<lambda>t. task_id t \<noteq> i) (tasks db) \<and>
        employees (snd (updateTask now i p db)) = employees db) \<and>
   (find (\<lambda>t. task_id t = i) (tasks db) = Some existing \<longrightarrow>
      fst (updateTask now i empty_patch db) = Inr (Some (existing\<lparr>task_updatedAt := now\<rparr>)) \<and>
      (now \<noteq> task_updatedAt existing \<longrightarrow>
         fst (updateTask now i empty_patch db) \<noteq> Inr (Some existing))) \<and>
   (find (\<lambda>t. task_id t = i) (tasks db) = Some existing \<longrightarrow>
      pt_employeeId p = Some missing \<longrightarrow>
      \<not> (\<exists>e \<in> set (employees db). emp_id e = missing) \<longrightarrow>
        updateTask now i p db = (Inl (SqliteError ''FOREIGN KEY constraint failed''), db))"
proof -
  have dangling: "updateTask now i p db =
      (Inl (SqliteError ''FOREIGN KEY constraint failed''), db)"
    if f: "find (\<lambda>t. task_id t = i) (tasks db) = Some existing"
      and m: "pt_employeeId p = Some missing"
        "\<not> (\<exists>e \<in> set (employees db). emp_id e = missing)"
  proof -
    from f have "\<exists>t \<in> set (tasks db). task_id t = i"
      by (auto simp: find_Some_iff)
    with m have "update_tasks now p i db =
        (Inl (SqliteError ''FOREIGN KEY constraint failed''), db)"
      by (simp add: update_tasks_def)
    with f show ?thesis by (simp add: updateTask_def)
  qed
  have none: "updateTask now i p db = (Inr None, db)"
    if "find (\<lambda>t. task_id t = i) (tasks db) = None"
    using that by (simp add: updateTask_def)
  have found: "fst (updateTask now i p db) =
          Inr (Some \<lparr>task_id = task_id existing,
                     task_title = (case pt_title p of Some v \<Rightarrow> v | None \<Rightarrow> task_title existing),
                     task_description =
                       (case pt_description p of
                          Undefined \<Rightarrow> task_description existing | Null \<Rightarrow> None
                        | Given v \<Rightarrow> Some v),
                     task_status =
                       (case pt_status p of Some v \<Rightarrow> v | None \<Rightarrow> task_status existing),
                     task_employeeId =
                       (case pt_employeeId p of Some v \<Rightarrow> v | None \<Rightarrow> task_employeeId existing),
                     task_dueDate =
                       (case pt_dueDate p of
                          Undefined \<Rightarrow> task_dueDate existing | Null \<Rightarrow> None
                        | Given v \<Rightarrow> Some v),
                     task_priority =
                       (case pt_priority p of Some v \<Rightarrow> v | None \<Rightarrow> task_priority existing),
                     task_createdAt = task_createdAt existing,
                     task_updatedAt = now\<rparr>) \<and>
        find (\<lambda>t. task_id t = i) (tasks (snd (updateTask now i p db))) =
          projr (fst (updateTask now i p db)) \<and>
        filter (\<lambda>t. task_id t \<noteq> i) (tasks (snd (updateTask now i p db))) =
          filter (\<lambda>t. task_id t \<noteq> i) (tasks db) \<and>
        employees (snd (updateTask now i p db)) = employees db"
    if f: "find (\<lambda>t. task_id t = i) (tasks db) = Some existing"
      and fk: "\<forall>v. pt_employeeId p = Some v \<longrightarrow> (\<exists>e \<in> set (employees db). emp_id e = v)"
  proof -
    note u = updateTask_found [OF f fk, of now]
    show ?thesis
      unfolding u using f
      by (simp add: find_task_update filter_task_update) (simp add: set_task_def)
  qed
  have patch: "fst (updateTask now i empty_patch db) = Inr (Some (existing\<lparr>task_updatedAt := now\<rparr>))"
    if f: "find (\<lambda>t. task_id t = i) (tasks db) = Some existing"
  proof -
    have "\<forall>v. pt_employeeId empty_patch = Some v \<longrightarrow> (\<exists>e \<in> set (employees db). emp_id e = v)"
      by (simp add: empty_patch_def)
    from updateTask_found [OF f this, of now] show ?thesis
      by (simp add: set_task_def empty_patch_def)
  qed
  have changes: "fst (updateTask now i empty_patch db) \<noteq> Inr (Some existing)"
    if "find (\<lambda>t. task_id t = i) (tasks db) = Some existing" "now \<noteq> task_updatedAt existing"
  proof
    assume "fst (updateTask now i empty_patch db) = Inr (Some existing)"
    with patch [OF that(1)] have "existing\<lparr>task_updatedAt := now\<rparr> = existing" by simp
    then have "task_updatedAt (existing\<lparr>task_updatedAt := now\<rparr>) = task_updatedAt existing"
      by simp
    with that(2) show False by simp
  qed
  from none found patch changes dangling show ?thesis by blast
qed

theorem updateTask_refreshes_updatedAt_witness:
  "updateTask demo_later 9 empty_patch demo_store = (Inr None, demo_store) \<and>
   fst (updateTask demo_later 1
          \<lparr>pt_title = None, pt_description = Given ''Charts'', pt_status = Some IN_PROGRESS,
           pt_employeeId = Some 2, pt_dueDate = Undefined, pt_priority = None\<rparr> demo_store) =
     Inr (Some \<lparr>task_id = 1, task_title = ''Implement user dashboard'',
                task_description = Some ''Charts'', task_status = IN_PROGRESS,
                task_employeeId = 2, task_dueDate = None, task_priority = MEDIUM,
                task_createdAt = ''2025-01-01 00:00:00'',
                task_updatedAt = ''2025-01-02 00:00:00''\<rparr>) \<and>
   fst (updateTask demo_later 1 empty_patch demo_store) =
     Inr (Some (demo_row1\<lparr>task_updatedAt := ''2025-01-02 00:00:00''\<rparr>)) \<and>
   fst (updateTask demo_later 1 empty_patch demo_store) \<noteq> Inr (Some demo_row1) \<and>
   updateTask demo_later 1 (empty_patch\<lparr>pt_employeeId := Some 9\<rparr>) demo_store =
     (Inl (SqliteError ''FOREIGN KEY constraint failed''), demo_store)"
proof -
  let ?p = "\<lparr>pt_title = None, pt_description = Given ''Charts'', pt_status = Some IN_PROGRESS,
             pt_employeeId = Some 2, pt_dueDate = Undefined, pt_priority = None\<rparr>"
  have missing: "find (\<lambda>t. task_id t = 9) (tasks demo_store) = None"
    by (simp add: demo_store_eq demo_row1_def demo_row2_def)
  have found: "find (\<lambda>t. task_id t = 1) (tasks demo_store) = Some demo_row1"
    by (simp add: demo_store_eq demo_row1_def demo_row2_def)
  have fk: "\<forall>v. pt_employeeId ?p = Some v \<longrightarrow> (\<exists>e \<in> set (employees demo_store). emp_id e = v)"
    by (simp add: demo_store_eq demo_priya_def)
  have later: "demo_later \<noteq> task_updatedAt demo_row1"
    by (simp add: demo_later_def demo_row1_def)
  from updateTask_refreshes_updatedAt [of 9 demo_store demo_later empty_patch demo_row1] missing
  have a: "updateTask demo_later 9 empty_patch demo_store = (Inr None, demo_store)"
    by blast
  from updateTask_refreshes_updatedAt [of 1 demo_store demo_later ?p demo_row1] found fk later
  have b: "fst (updateTask demo_later 1 ?p demo_store) =
     Inr (Some \<lparr>task_id = 1, task_title = ''Implement user dashboard'',
                task_description = Some ''Charts'', task_status = IN_PROGRESS,
                task_employeeId = 2, task_dueDate = None, task_priority = MEDIUM,
                task_createdAt = ''2025-01-01 00:00:00'',
                task_updatedAt = ''2025-01-02 00:00:00''\<rparr>)"
    and c: "fst (updateTask demo_later 1 empty_patch demo_store) =
     Inr (Some (demo_row1\<lparr>task_updatedAt := demo_later\<rparr>))"
    and d: "fst (updateTask demo_later 1 empty_patch demo_store) \<noteq> Inr (Some demo_row1)"
    by (simp_all add: demo_row1_def demo_later_def)
  have gone: "pt_employeeId (empty_patch\<lparr>pt_employeeId := Some 9\<rparr>) = Some 9"
    "\<not> (\<exists>e \<in> set (employees demo_store). emp_id e = 9)"
    by (simp_all add: demo_store_eq demo_raj_def demo_priya_def)
  from updateTask_refreshes_updatedAt
    [of 1 demo_store demo_later "empty_patch\<lparr>pt_employeeId := Some 9\<rparr>" demo_row1 9]
    found gone
  have e: "updateTask demo_later 1 (empty_patch\<lparr>pt_employeeId := Some 9\<rparr>) demo_store =
     (Inl (SqliteError ''FOREIGN KEY constraint failed''), demo_store)"
    by blast
  from a b c d e show ?thesis by (simp add: demo_later_def)
qed

text \<open>
  Claim C5 as stated fails for a payload whose \<open>employeeId\<close> names no employee: task 1
  exists, no employee has the id 7, and \<open>updateTask\<close> with \<open>{employeeId: 7}\<close> a day
  after the task was created throws the foreign key error and leaves the store, hence the
  \<open>updatedAt\<close> of the task, as it was.
\<close>

theorem updateTask_missing_employee_counterexample:
  "reachable demo_store \<and>
   find (\<lambda>t. task_id t = 1) (tasks demo_store) = Some demo_row1 \<and>
   getEmployeeById 7 demo_store = None \<and>
   updateTask demo_later 1 (empty_patch\<lparr>pt_employeeId := Some 7\<rparr>) demo_store =
     (Inl (SqliteError ''FOREIGN KEY constraint failed''), demo_store) \<and>
   task_updatedAt demo_row1 = ''2025-01-01 00:00:00'' \<and>
   demo_later = ''2025-01-02 00:00:00''"
  using demo_store_reachable
  by (simp add: demo_store_eq updateTask_def update_tasks_def getEmployeeById_def
      empty_patch_def demo_raj_def demo_priya_def demo_row1_def demo_row2_def demo_later_def)

lemma find_appended_task:
  assumes "\<forall>t \<in> set ts. task_id t \<noteq> task_id row"
  shows "find (\<lambda>t. task_id t = task_id row) (ts @ [row]) = Some row"
  using assms by (induction ts) auto

text \<open>
  Claim C7, as amended. In a reachable store, for a payload whose employee exists,
  \<open>createTask\<close> returns the inserted row: the next id, title and \<open>employeeId\<close> as given,
  \<open>status\<close> as given or \<open>pending\<close>, \<open>priority\<close> as given or \<open>medium\<close>, \<open>description\<close> and
  \<open>dueDate\<close> as given when they are non-empty strings and \<^verbatim>\<open>null\<close> otherwise, both
  timestamps the current time. The row is appended to the table. For a payload that
  passes the schema the due date is never empty, so it is stored as given.
\<close>

theorem createTask_defaults:
  assumes "reachable db"
    and "\<exists>e \<in> set (employees db). emp_id e = it_employeeId task"
  shows "fst (createTask now task db) =
            Inr (Some
              \<lparr>task_id = tasks_seq db + 1,
               task_title = it_title task,
               task_description =
                 (case it_description task of
                    Given d \<Rightarrow> if d = [] then None else Some d | _ \<Rightarrow> None),
               task_status = (case it_status task of Some s \<Rightarrow> s | None \<Rightarrow> PENDING),
               task_employeeId = it_employeeId task,
               task_dueDate =
                 (case it_dueDate task of
                    Given d \<Rightarrow> if d = [] then None else Some d | _ \<Rightarrow> None),
               task_priority = (case it_priority task of Some q \<Rightarrow> q | None \<Rightarrow> MEDIUM),
               task_createdAt = now,
               task_updatedAt = now\<rparr>) \<and>
         tasks (snd (createTask now task db)) =
           tasks db @ [the (projr (fst (createTask now task db)))] \<and>
         employees (snd (createTask now task db)) = employees db \<and>
         (insertTaskSchema_ok task \<longrightarrow>
            task_dueDate (the (projr (fst (createTask now task db)))) =
              (case it_dueDate task of Given d \<Rightarrow> Some d | _ \<Rightarrow> None))"
proof -
  let ?row = "\<lparr>task_id = tasks_seq db + 1,
               task_title = it_title task,
               task_description = or_null (it_description task),
               task_status = (case it_status task of Some s \<Rightarrow> s | None \<Rightarrow> PENDING),
               task_employeeId = it_employeeId task,
               task_dueDate = or_null (it_dueDate task),
               task_priority = (case it_priority task of Some q \<Rightarrow> q | None \<Rightarrow> MEDIUM),
               task_createdAt = now,
               task_updatedAt = now\<rparr>"
  from assms(1) have "store_ok db" by (rule reachable_store_ok)
  then have "\<forall>t \<in> set (tasks db). task_id t \<noteq> task_id ?row"
    by (auto simp: store_ok_def)
  then have f: "find (\<lambda>t. task_id t = tasks_seq db + 1) (tasks db @ [?row]) = Some ?row"
    using find_appended_task [of "tasks db" ?row] by simp
  have c: "createTask now task db =
      (Inr (Some ?row), db\<lparr>tasks := tasks db @ [?row], tasks_seq := tasks_seq db + 1\<rparr>)"
    using assms(2) f by (simp add: createTask_def insert_tasks_def Let_def)
  have shape: "or_null (it_dueDate task) = (case it_dueDate task of Given d \<Rightarrow> Some d | _ \<Rightarrow> None)"
    if "insertTaskSchema_ok task"
    using that
    by (cases "it_dueDate task") (auto simp: insertTaskSchema_ok_def or_null_def dueDate_shape_def)
  show ?thesis
    unfolding c using shape by (simp add: or_null_def)
qed

theorem createTask_defaults_witness:
  "reachable demo_store \<and>
   insertTaskSchema_ok demo_done_task \<and>
   fst (createTask demo_later demo_task demo_store) =
     Inr (Some \<lparr>task_id = 3, task_title = ''Implement user dashboard'',
                 task_description = None, task_status = PENDING, task_employeeId = 1,
                 task_dueDate = None, task_priority = MEDIUM,
                 task_createdAt = ''2025-01-02 00:00:00'',
                 task_updatedAt = ''2025-01-02 00:00:00''\<rparr>) \<and>
   fst (createTask demo_later demo_done_task demo_store) =
     Inr (Some \<lparr>task_id = 3, task_title = ''Code review for API endpoints'',
                 task_description = Some ''Review and approve new REST API endpoints'',
                 task_status = COMPLETED, task_employeeId = 1,
                 task_dueDate = Some ''2025-01-20'', task_priority = LOW,
                 task_createdAt = ''2025-01-02 00:00:00'',
                 task_updatedAt = ''2025-01-02 00:00:00''\<rparr>)"
proof -
  have e: "\<exists>e \<in> set (employees demo_store). emp_id e = it_employeeId demo_task"
    "\<exists>e \<in> set (employees demo_store). emp_id e = it_employeeId demo_done_task"
    by (simp_all add: demo_store_eq demo_task_def demo_done_task_def demo_raj_def)
  have seq: "tasks_seq demo_store = 2" by (simp add: demo_store_eq)
  have valid: "insertTaskSchema_ok demo_done_task"
    by (simp add: insertTaskSchema_ok_def demo_done_task_def dueDate_shape_def is_digit_def)
  from createTask_defaults [OF demo_store_reachable e(1), of demo_later]
  have a: "fst (createTask demo_later demo_task demo_store) =
     Inr (Some \<lparr>task_id = 3, task_title = ''Implement user dashboard'',
                 task_description = None, task_status = PENDING, task_employeeId = 1,
                 task_dueDate = None, task_priority = MEDIUM,
                 task_createdAt = ''2025-01-02 00:00:00'',
                 task_updatedAt = ''2025-01-02 00:00:00''\<rparr>)"
    by (simp add: seq demo_task_def demo_later_def)
  from createTask_defaults [OF demo_store_reachable e(2), of demo_later]
  have b: "fst (createTask demo_later demo_done_task demo_store) =
     Inr (Some \<lparr>task_id = 3, task_title = ''Code review for API endpoints'',
                 task_description = Some ''Review and approve new REST API endpoints'',
                 task_status = COMPLETED, task_employeeId = 1,
                 task_dueDate = Some ''2025-01-20'', task_priority = LOW,
                 task_createdAt = ''2025-01-02 00:00:00'',
                 task_updatedAt = ''2025-01-02 00:00:00''\<rparr>)"
    by (simp add: seq demo_done_task_def demo_later_def)
  from a b valid demo_store_reachable show ?thesis by simp
qed

text \<open>
  Claim C7 as stated fails for the description: the payload with \<open>description = ""\<close>
  passes the schema, and the row created has the description \<^verbatim>\<open>null\<close>, not the supplied
  empty string (\<open>updateTask\<close> stores the same value as given).
\<close>

theorem createTask_empty_description_counterexample:
  "reachable demo_store \<and>
   insertTaskSchema_ok (demo_task\<lparr>it_description := Given ''''\<rparr>) \<and>
   it_description (demo_task\<lparr>it_description := Given ''''\<rparr>) = Given '''' \<and>
   getEmployeeById 1 demo_store = Some demo_raj \<and>
   fst (createTask demo_later (demo_task\<lparr>it_description := Given ''''\<rparr>) demo_store) =
     Inr (Some \<lparr>task_id = 3, task_title = ''Implement user dashboard'',
                 task_description = None, task_status = PENDING, task_employeeId = 1,
                 task_dueDate = None, task_priority = MEDIUM,
                 task_createdAt = ''2025-01-02 00:00:00'',
                 task_updatedAt = ''2025-01-02 00:00:00''\<rparr>) \<and>
   fst (updateTask demo_later 1 (empty_patch\<lparr>pt_description := Given ''''\<rparr>) demo_store) =
     Inr (Some (demo_row1\<lparr>task_description := Some '''',
                          task_updatedAt := ''2025-01-02 00:00:00''\<rparr>))"
  using demo_store_reachable
  by (simp add: insertTaskSchema_ok_def demo_task_def demo_store_eq createTask_def
      insert_tasks_def or_null_def demo_raj_def demo_priya_def demo_row1_def demo_row2_def
      demo_later_def getEmployeeById_def updateTask_def update_tasks_def set_task_def
      empty_patch_def Let_def)

text \<open>
  Claim C9. A filter whose \<open>employeeId\<close> is 0 gives the result of the filter without
  \<open>employeeId\<close>; a filter whose \<open>status\<close> is the empty string gives the result of the
  filter without \<open>status\<close>; with both, the result is that of no filter at all.
\<close>

theorem getAllTasks_falsy_filter_dropped:
  "getAllTasks (Some \<lparr>f_status = s, f_employeeId = Some 0\<rparr>) db =
     getAllTasks (Some \<lparr>f_status = s, f_employeeId = None\<rparr>) db \<and>
   getAllTasks (Some \<lparr>f_status = Some '''', f_employeeId = n\<rparr>) db =
     getAllTasks (Some \<lparr>f_status = None, f_employeeId = n\<rparr>) db \<and>
   getAllTasks (Some \<lparr>f_status = Some '''', f_employeeId = Some 0\<rparr>) db = getAllTasks None db"
  by (simp add: getAllTasks_def status_condition_def employeeId_condition_def)

theorem getAllTasks_falsy_filter_dropped_witness:
  "getAllTasks (Some \<lparr>f_status = None, f_employeeId = Some 0\<rparr>) demo_store =
     [(demo_row2, ''Raj Patel''), (demo_row1, ''Raj Patel'')] \<and>
   getAllTasks (Some \<lparr>f_status = Some '''', f_employeeId = Some 2\<rparr>) demo_store = [] \<and>
   getAllTasks (Some \<lparr>f_status = Some '''', f_employeeId = Some 0\<rparr>) demo_store =
     [(demo_row2, ''Raj Patel''), (demo_row1, ''Raj Patel'')]"
proof -
  have all: "getAllTasks None demo_store = [(demo_row2, ''Raj Patel''), (demo_row1, ''Raj Patel'')]"
    by (simp add: demo_store_eq getAllTasks_def tasks_join_employees_def order_by_desc_def
        status_condition_def employeeId_condition_def demo_row1_def demo_row2_def
        demo_raj_def demo_priya_def)
  have none: "getAllTasks (Some \<lparr>f_status = None, f_employeeId = None\<rparr>) demo_store =
      getAllTasks None demo_store"
    by (simp add: getAllTasks_def status_condition_def employeeId_condition_def)
  have two: "getAllTasks (Some \<lparr>f_status = None, f_employeeId = Some 2\<rparr>) demo_store = []"
    by (simp add: demo_store_eq getAllTasks_def tasks_join_employees_def order_by_desc_def
        status_condition_def employeeId_condition_def demo_row1_def demo_row2_def
        demo_raj_def demo_priya_def)
  show ?thesis
    using all none two
      getAllTasks_falsy_filter_dropped [of None demo_store "Some 2"]
      getAllTasks_falsy_filter_dropped [of None demo_store "Some 0"]
    by simp
qed

section \<open>Listing tasks\<close>

lemma concat_map_if:
  "concat (map (\<lambda>e. if P e then [f e] else []) es) = map f (filter P es)"
  by (induction es) auto

lemma filter_unique_id:
  assumes "distinct (map emp_id es)" "e0 \<in> set es"
  shows "filter (\<lambda>e. emp_id e0 = emp_id e) es = [e0]"
  using assms
proof (induction es)
  case Nil
  then show ?case by simp
next
  case (Cons a es)
  show ?case
  proof (cases "a = e0")
    case True
    with Cons.prems have "\<forall>e \<in> set es. emp_id e \<noteq> emp_id e0" by (auto simp: image_iff)
    then have "filter (\<lambda>e. emp_id e0 = emp_id e) es = []"
      by (auto simp: filter_empty_conv)
    with True show ?thesis by simp
  next
    case False
    with Cons.prems have "e0 \<in> set es" "emp_id a \<noteq> emp_id e0" by (auto simp: image_iff)
    with Cons show ?thesis by auto
  qed
qed

lemma find_unique_id:
  assumes "distinct (map emp_id es)" "e0 \<in> set es"
  shows "find (\<lambda>e. emp_id e = emp_id e0) es = Some e0"
  using assms
proof (induction es)
  case Nil
  then show ?case by simp
next
  case (Cons a es)
  then show ?case by (cases "a = e0") (auto simp: image_iff)
qed

lemma join_fst:
  assumes "distinct (map emp_id es)"
    and "\<forall>t \<in> set ts. \<exists>e \<in> set es. emp_id e = task_employeeId t"
  shows "map fst [(t, e). t \<leftarrow> ts, e \<leftarrow> es, task_employeeId t = emp_id e] = ts"
  using assms(2)
proof (induction ts)
  case Nil
  then show ?case by simp
next
  case (Cons t ts)
  then obtain e0 where e0: "e0 \<in> set es" "emp_id e0 = task_employeeId t" by auto
  have "filter (\<lambda>e. task_employeeId t = emp_id e) es = [e0]"
    using filter_unique_id [OF assms(1) e0(1)] e0(2) by simp
  then have "concat (map (\<lambda>e. if task_employeeId t = emp_id e then [(t, e)] else []) es) = [(t, e0)]"
    by (simp add: concat_map_if)
  with Cons show ?case by simp
qed

lemma map_fst_filter_fst:
  "map fst (filter (\<lambda>(t, e). C t) xs) = filter C (map fst xs)"
  by (induction xs) auto

lemma map_fst_name:
  "map fst (map (\<lambda>(t, e). (t, emp_name e)) xs) = map fst xs"
  by (induction xs) auto

lemma mset_map_order_by_desc:
  "mset (map f (order_by_desc k ys)) = mset (map f ys)"
  by (simp add: order_by_desc_def)

lemma mset_getAllTasks:
  assumes "store_ok db"
  shows "mset (map fst (getAllTasks filters db)) =
           mset (filter (\<lambda>t. status_condition filters t \<and> employeeId_condition filters t)
                   (tasks db))"
proof -
  let ?C = "\<lambda>t. status_condition filters t \<and> employeeId_condition filters t"
  let ?rows = "filter (\<lambda>(t, e). ?C t) (tasks_join_employees db)"
  from assms have j: "map fst (tasks_join_employees db) = tasks db"
    unfolding tasks_join_employees_def
    by (intro join_fst) (auto simp: store_ok_def foreign_key_ok_def)
  have "mset (map fst (getAllTasks filters db)) =
      mset (map fst (map (\<lambda>(t, e). (t, emp_name e)) ?rows))"
    by (simp only: getAllTasks_def mset_map_order_by_desc)
  also have "\<dots> = mset (map fst ?rows)"
    by (simp only: map_fst_name)
  also have "\<dots> = mset (filter ?C (tasks db))"
    by (simp only: map_fst_filter_fst j)
  finally show ?thesis .
qed

lemma sorted_getAllTasks:
  "sorted_wrt (\<lambda>a b. task_createdAt (fst b) \<le> task_createdAt (fst a)) (getAllTasks filters db)"
proof -
  let ?k = "\<lambda>row :: Task \<times> string. task_createdAt (fst row)"
  have "sorted (map ?k (sort_key ?k xs))" for xs
    by (rule sorted_sort_key)
  then have "sorted_wrt (\<lambda>a b. ?k a \<le> ?k b) (sort_key ?k xs)" for xs
    by (simp add: sorted_map)
  then have "sorted_wrt (\<lambda>a b. ?k b \<le> ?k a) (rev (sort_key ?k xs))" for xs
    by (simp add: sorted_wrt_rev)
  then show ?thesis
    by (simp add: getAllTasks_def order_by_desc_def)
qed

lemma names_getAllTasks:
  assumes "store_ok db" "(t, name) \<in> set (getAllTasks filters db)"
  shows "\<exists>e. getEmployeeById (task_employeeId t) db = Some e \<and> name = emp_name e"
proof -
  from assms(2) obtain e where e: "e \<in> set (employees db)" "task_employeeId t = emp_id e"
    "name = emp_name e"
    by (auto simp: set_getAllTasks)
  from assms(1) have "distinct (map emp_id (employees db))" by (simp add: store_ok_def)
  from find_unique_id [OF this e(1)] e show ?thesis
    by (auto simp: getEmployeeById_def)
qed

text \<open>
  Claim C4, as amended. In a reachable store, for a non-empty \<open>status\<close> and an
  \<open>employeeId\<close> other than 0, \<open>getAllTasks\<close> returns exactly the tasks (as a multiset)
  that have that status and that employee; with one of the two it filters on that one;
  with neither it returns every task. For every filter the rows are in descending order
  of \<open>createdAt\<close> and each carries the name of the employee the task belongs to.
\<close>

theorem getAllTasks_filtered:
  assumes "reachable db"
  shows "(s \<noteq> [] \<and> n \<noteq> 0 \<longrightarrow>
            mset (map fst (getAllTasks (Some \<lparr>f_status = Some s, f_employeeId = Some n\<rparr>) db)) =
              mset (filter (\<lambda>t. status_text (task_status t) = s \<and> task_employeeId t = n)
                      (tasks db))) \<and>
         (s \<noteq> [] \<longrightarrow>
            mset (map fst (getAllTasks (Some \<lparr>f_status = Some s, f_employeeId = None\<rparr>) db)) =
              mset (filter (\<lambda>t. status_text (task_status t) = s) (tasks db))) \<and>
         (n \<noteq> 0 \<longrightarrow>
            mset (map fst (getAllTasks (Some \<lparr>f_status = None, f_employeeId = Some n\<rparr>) db)) =
              mset (filter (\<lambda>t. task_employeeId t = n) (tasks db))) \<and>
         mset (map fst (getAllTasks (Some \<lparr>f_status = None, f_employeeId = None\<rparr>) db)) =
           mset (tasks db) \<and>
         mset (map fst (getAllTasks None db)) = mset (tasks db) \<and>
         sorted_wrt (\<lambda>a b. task_createdAt (fst b) \<le> task_createdAt (fst a))
           (getAllTasks filters db) \<and>
         (\<forall>(t, name) \<in> set (getAllTasks filters db).
            \<exists>e. getEmployeeById (task_employeeId t) db = Some e \<and> name = emp_name e)"
proof -
  from assms have ok: "store_ok db" by (rule reachable_store_ok)
  have both: "mset (map fst (getAllTasks (Some \<lparr>f_status = Some s, f_employeeId = Some n\<rparr>) db)) =
      mset (filter (\<lambda>t. status_text (task_status t) = s \<and> task_employeeId t = n) (tasks db))"
    if "s \<noteq> []" "n \<noteq> 0"
    using that unfolding mset_getAllTasks [OF ok]
    by (simp add: status_condition_def employeeId_condition_def)
  have st: "mset (map fst (getAllTasks (Some \<lparr>f_status = Some s, f_employeeId = None\<rparr>) db)) =
      mset (filter (\<lambda>t. status_text (task_status t) = s) (tasks db))"
    if "s \<noteq> []"
    using that unfolding mset_getAllTasks [OF ok]
    by (simp add: status_condition_def employeeId_condition_def)
  have em: "mset (map fst (getAllTasks (Some \<lparr>f_status = None, f_employeeId = Some n\<rparr>) db)) =
      mset (filter (\<lambda>t. task_employeeId t = n) (tasks db))"
    if "n \<noteq> 0"
    using that unfolding mset_getAllTasks [OF ok]
    by (simp add: status_condition_def employeeId_condition_def)
  have none: "mset (map fst (getAllTasks (Some \<lparr>f_status = None, f_employeeId = None\<rparr>) db)) =
      mset (tasks db)" "mset (map fst (getAllTasks None db)) = mset (tasks db)"
    unfolding mset_getAllTasks [OF ok]
    by (simp_all add: status_condition_def employeeId_condition_def)
  have names: "\<forall>(t, name) \<in> set (getAllTasks filters db).
      \<exists>e. getEmployeeById (task_employeeId t) db = Some e \<and> name = emp_name e"
    using names_getAllTasks [OF ok] by blast
  from both st em none names sorted_getAllTasks [of filters db] show ?thesis
    by blast
qed

theorem getAllTasks_filtered_witness:
  "reachable demo_store \<and>
   mset (map fst (getAllTasks (Some \<lparr>f_status = Some ''completed'', f_employeeId = Some 1\<rparr>)
                    demo_store)) = {#demo_row2#} \<and>
   mset (map fst (getAllTasks (Some \<lparr>f_status = Some ''pending'', f_employeeId = None\<rparr>)
                    demo_store)) = {#demo_row1#} \<and>
   mset (map fst (getAllTasks (Some \<lparr>f_status = None, f_employeeId = Some 2\<rparr>) demo_store)) = {#} \<and>
   mset (map fst (getAllTasks None demo_store)) = {#demo_row1, demo_row2#} \<and>
   getAllTasks None demo_store = [(demo_row2, ''Raj Patel''), (demo_row1, ''Raj Patel'')]"
proof -
  have all: "getAllTasks None demo_store = [(demo_row2, ''Raj Patel''), (demo_row1, ''Raj Patel'')]"
    by (simp add: demo_store_eq getAllTasks_def tasks_join_employees_def order_by_desc_def
        status_condition_def employeeId_condition_def demo_row1_def demo_row2_def
        demo_raj_def demo_priya_def)
  have ts: "tasks demo_store = [demo_row1, demo_row2]" by (simp add: demo_store_eq)
  have f1: "filter (\<lambda>t. status_text (task_status t) = ''completed'' \<and> task_employeeId t = 1)
              (tasks demo_store) = [demo_row2]"
    and f2: "filter (\<lambda>t. status_text (task_status t) = ''pending'') (tasks demo_store) = [demo_row1]"
    and f3: "filter (\<lambda>t. task_employeeId t = 2) (tasks demo_store) = []"
    by (simp_all add: ts demo_row1_def demo_row2_def)
  note c = getAllTasks_filtered [OF demo_store_reachable]
  from c [of "''completed''" 1 None] f1
  have a: "mset (map fst (getAllTasks (Some \<lparr>f_status = Some ''completed'', f_employeeId = Some 1\<rparr>)
                    demo_store)) = {#demo_row2#}"
    by simp
  from c [of "''pending''" 2 None] f2 f3 ts
  have b: "mset (map fst (getAllTasks (Some \<lparr>f_status = Some ''pending'', f_employeeId = None\<rparr>)
                    demo_store)) = {#demo_row1#}"
    "mset (map fst (getAllTasks (Some \<lparr>f_status = None, f_employeeId = Some 2\<rparr>) demo_store)) = {#}"
    "mset (map fst (getAllTasks None demo_store)) = {#demo_row1, demo_row2#}"
    by simp_all
  from a b all demo_store_reachable show ?thesis by simp
qed

text \<open>
  Claim C4 as stated fails for the filter values 0 and \<open>""\<close>: with the status
  \<open>completed\<close> and the \<open>employeeId\<close> 0 the completed task of employee 1 is returned, though
  no task has the \<open>employeeId\<close> 0; with the status \<open>""\<close> and the \<open>employeeId\<close> 1 both
  tasks of employee 1 are returned, though no task has that status.
\<close>

theorem getAllTasks_zero_employeeId_counterexample:
  "reachable demo_store \<and>
   getAllTasks (Some \<lparr>f_status = Some ''completed'', f_employeeId = Some 0\<rparr>) demo_store =
     [(demo_row2, ''Raj Patel'')] \<and>
   filter (\<lambda>t. status_text (task_status t) = ''completed'' \<and> task_employeeId t = 0)
     (tasks demo_store) = [] \<and>
   getAllTasks (Some \<lparr>f_status = Some '''', f_employeeId = Some 1\<rparr>) demo_store =
     [(demo_row2, ''Raj Patel''), (demo_row1, ''Raj Patel'')] \<and>
   filter (\<lambda>t. status_text (task_status t) = '''' \<and> task_employeeId t = 1) (tasks demo_store) = []"
  using demo_store_reachable
  by (simp add: demo_store_eq getAllTasks_def tasks_join_employees_def order_by_desc_def
      status_condition_def employeeId_condition_def demo_row1_def demo_row2_def
      demo_raj_def demo_priya_def)

section \<open>Identifiers in paths and queries\<close>

lemma not_digit_not_radix10:
  assumes "\<not> is_decimal_digit u"
  shows "\<not> is_radix_digit 10 u"
  using assms by (auto simp: is_radix_digit_def digit_of_def is_decimal_digit_def)

lemma parseInt_no_leading_number:
  assumes "no_leading_number s"
  shows "parseInt s = None"
proof (cases "dropWhile is_space s")
  case Nil
  show ?thesis unfolding parseInt_def Let_def Nil by simp
next
  case (Cons u r)
  let ?body = "if u = 43 \<or> u = 45 then r else u # r"
  show ?thesis
  proof (cases ?body)
    case Nil
    then show ?thesis
      unfolding parseInt_def Let_def Cons by (auto split: if_splits)
  next
    case body: (Cons d r')
    with assms Cons have nd: "\<not> is_decimal_digit d"
      by (simp add: no_leading_number_def)
    then have "d \<noteq> 48" by (auto simp: is_decimal_digit_def)
    moreover from nd have "\<not> is_radix_digit 10 d" by (rule not_digit_not_radix10)
    ultimately show ?thesis
      using body unfolding parseInt_def Let_def Cons
      by (auto split: if_splits list.splits)
  qed
qed

text \<open>
  Claim C8, as amended. An id string that \<^verbatim>\<open>parseInt\<close> reads as \<^verbatim>\<open>NaN\<close> is answered 400
  by each of the six handlers with an \<^verbatim>\<open>:id\<close>, the store unchanged, and such a string,
  when not empty, as \<^verbatim>\<open>employee_id\<close> of \<^verbatim>\<open>GET /api/tasks\<close> is answered 400 too. Every
  string in which, after white space and one sign, no decimal digit follows is read as
  \<^verbatim>\<open>NaN\<close>.
\<close>

theorem unparsable_id_rejected:
  "(no_leading_number s \<longrightarrow> parseInt s = None) \<and>
   (parseInt s = None \<longrightarrow>
      GET_employees_id s db = (400, ErrorBody ''Invalid employee ID'') \<and>
      PUT_employees_id s pe db = ((400, ErrorBody ''Invalid employee ID''), db) \<and>
      DELETE_employees_id s db = ((400, ErrorBody ''Invalid employee ID''), db) \<and>
      GET_tasks_id s db = (400, ErrorBody ''Invalid task ID'') \<and>
      PUT_tasks_id now s pt db = ((400, ErrorBody ''Invalid task ID''), db) \<and>
      DELETE_tasks_id s db = ((400, ErrorBody ''Invalid task ID''), db) \<and>
      (s \<noteq> [] \<longrightarrow> fst (GET_tasks status (Some s) db) = 400))"
proof -
  have "fst (GET_tasks status (Some s) db) = 400" if "parseInt s = None" "s \<noteq> []"
    using that by (simp add: GET_tasks_def Let_def)
  then show ?thesis
    using parseInt_no_leading_number [of s]
    by (simp add: GET_employees_id_def PUT_employees_id_def DELETE_employees_id_def
        GET_tasks_id_def PUT_tasks_id_def DELETE_tasks_id_def)
qed

lemma no_leading_number_examples:
  "no_leading_number (js ''abc'')" "no_leading_number (0xA0 # js ''-x1'')"
  by (simp_all add: no_leading_number_def js_simps is_space_def is_decimal_digit_def)

theorem unparsable_id_rejected_witness:
  "no_leading_number (js ''abc'') \<and> parseInt (js ''abc'') = None \<and>
   GET_employees_id (js ''abc'') demo_store = (400, ErrorBody ''Invalid employee ID'') \<and>
   DELETE_tasks_id (js ''abc'') demo_store = ((400, ErrorBody ''Invalid task ID''), demo_store) \<and>
   fst (GET_tasks None (Some (js ''abc'')) demo_store) = 400 \<and>
   parseInt (0xA0 # js ''-x1'') = None \<and>
   GET_tasks_id (0xA0 # js ''-x1'') demo_store = (400, ErrorBody ''Invalid task ID'')"
proof -
  have ne: "js ''abc'' \<noteq> []" by (simp add: js_simps)
  from no_leading_number_examples ne
    unparsable_id_rejected [of "js ''abc''" demo_store "ZodError []" demo_now "ZodError []" None]
    unparsable_id_rejected [of "0xA0 # js ''-x1''" demo_store "ZodError []" demo_now "ZodError []" None]
  show ?thesis by blast
qed

text \<open>
  Claim C8 as stated fails for strings that start with a number: \<^verbatim>\<open>1abc\<close> fetches
  employee 1, and so does \<^verbatim>\<open>1\<close> after a no-break space; \<^verbatim>\<open>2abc\<close> deletes task 2,
  \<^verbatim>\<open>7.5\<close> is looked up as task 7, \<^verbatim>\<open>2abc\<close> as \<^verbatim>\<open>employee_id\<close> filters on employee 2,
  and the empty \<^verbatim>\<open>employee_id\<close> is taken as no filter.
\<close>

theorem id_with_numeric_prefix_counterexample:
  "reachable demo_store \<and>
   \<not> numeric_id (js ''1abc'') \<and>
   GET_employees_id (js ''1abc'') demo_store =
     (200, EmployeeWithTasksJson demo_raj [demo_row2, demo_row1]) \<and>
   \<not> numeric_id (0xA0 # js ''1'') \<and>
   GET_employees_id (0xA0 # js ''1'') demo_store =
     (200, EmployeeWithTasksJson demo_raj [demo_row2, demo_row1]) \<and>
   \<not> numeric_id (js ''2abc'') \<and>
   DELETE_tasks_id (js ''2abc'') demo_store =
     ((200, MessageBody ''Task deleted successfully''), demo_store\<lparr>tasks := [demo_row1]\<rparr>) \<and>
   \<not> numeric_id (js ''7.5'') \<and>
   GET_tasks_id (js ''7.5'') demo_store = (404, ErrorBody ''Task not found'') \<and>
   GET_tasks None (Some (js ''2abc'')) demo_store = (200, TaskListJson []) \<and>
   \<not> numeric_id [] \<and>
   GET_tasks None (Some []) demo_store =
     (200, TaskListJson [(demo_row2, ''Raj Patel''), (demo_row1, ''Raj Patel'')])"
proof -
  have p: "parseInt (js ''1abc'') = Some 1" "parseInt (0xA0 # js ''1'') = Some 1"
    "parseInt (js ''2abc'') = Some 2" "parseInt (js ''7.5'') = Some 7"
    by (simp_all add: parseInt_eval)
  have n: "\<not> numeric_id (js ''1abc'')" "\<not> numeric_id (0xA0 # js ''1'')"
    "\<not> numeric_id (js ''2abc'')" "\<not> numeric_id (js ''7.5'')" "\<not> numeric_id []"
    by (simp_all add: numeric_id_def js_simps is_decimal_digit_def)
  have ne: "js ''2abc'' \<noteq> []" by (simp add: js_simps)
  have w: "getEmployeeWithTasks 1 demo_store = Some (demo_raj, [demo_row2, demo_row1])"
    by (simp add: getEmployeeWithTasks_def getEmployeeById_def
        demo_store_eq order_by_desc_def demo_raj_def demo_priya_def demo_row1_def demo_row2_def)
  have a: "GET_employees_id (js ''1abc'') demo_store =
      (200, EmployeeWithTasksJson demo_raj [demo_row2, demo_row1])"
    "GET_employees_id (0xA0 # js ''1'') demo_store =
      (200, EmployeeWithTasksJson demo_raj [demo_row2, demo_row1])"
    by (simp_all add: GET_employees_id_def p w)
  have b: "DELETE_tasks_id (js ''2abc'') demo_store =
     ((200, MessageBody ''Task deleted successfully''), demo_store\<lparr>tasks := [demo_row1]\<rparr>)"
    by (simp add: DELETE_tasks_id_def p deleteTask_def delete_tasks_def
        demo_store_eq demo_row1_def demo_row2_def)
  have c: "GET_tasks_id (js ''7.5'') demo_store = (404, ErrorBody ''Task not found'')"
    by (simp add: GET_tasks_id_def p getTaskById_def tasks_join_employees_def
        demo_store_eq demo_raj_def demo_priya_def demo_row1_def demo_row2_def)
  have d: "GET_tasks None (Some (js ''2abc'')) demo_store = (200, TaskListJson [])"
    using ne
    by (simp add: GET_tasks_def p getAllTasks_def tasks_join_employees_def order_by_desc_def
        status_condition_def employeeId_condition_def
        demo_store_eq demo_raj_def demo_priya_def demo_row1_def demo_row2_def)
  have e: "GET_tasks None (Some []) demo_store =
     (200, TaskListJson [(demo_row2, ''Raj Patel''), (demo_row1, ''Raj Patel'')])"
    by (simp add: GET_tasks_def getAllTasks_def tasks_join_employees_def order_by_desc_def
        status_condition_def employeeId_condition_def
        demo_store_eq demo_raj_def demo_priya_def demo_row1_def demo_row2_def)
  from demo_store_reachable n a b c d e show ?thesis by simp
qed

section \<open>Rounding to binary64\<close>

lemma bitlen_powi_bounds:
  assumes "0 < (a::int)"
  shows "(2::rat) powi (bitlen a - 1) \<le> of_int a" and "of_int a < (2::rat) powi (bitlen a)"
proof -
  from assms have l: "1 \<le> bitlen a" by (auto simp: bitlen_alt_def)
  from bitlen_bounds [OF assms] have lo: "2 ^ nat (bitlen a - 1) \<le> a" and hi: "a < 2 ^ nat (bitlen a)"
    by simp_all
  from lo have "(of_int (2 ^ nat (bitlen a - 1)) :: rat) \<le> of_int a"
    by (simp only: of_int_le_iff)
  with l show "(2::rat) powi (bitlen a - 1) \<le> of_int a"
    by (simp add: power_int_def)
  from hi have "(of_int a :: rat) < of_int (2 ^ nat (bitlen a))"
    by (simp only: of_int_less_iff)
  with l show "of_int a < (2::rat) powi (bitlen a)"
    by (simp add: power_int_def)
qed

lemma binade_bounds:
  assumes "0 < x"
  shows "2 powi (binade x) \<le> x \<and> x < 2 powi (binade x + 1)"
proof -
  obtain a b where q: "quotient_of x = (a, b)" by (cases "quotient_of x")
  then have b: "0 < b" and x: "x = of_int a / of_int b"
    by (auto simp: quotient_of_denom_pos quotient_of_div)
  with assms have a: "0 < a"
    by (simp add: zero_less_divide_iff)
  let ?k = "bitlen a - bitlen b"
  note A = bitlen_powi_bounds [OF a] and B = bitlen_powi_bounds [OF b]
  have bpos: "(0::rat) < of_int b" using b by simp
  have "x * of_int b = of_int a" using x bpos by simp
  have up: "x < 2 powi (?k + 1)"
  proof -
    have "x * 2 powi (bitlen b - 1) \<le> x * of_int b"
      using B(1) assms by (simp add: mult_left_mono)
    also have "\<dots> = of_int a" by fact
    also have "\<dots> < 2 powi (bitlen a)" by (rule A(2))
    also have "\<dots> = 2 powi (?k + 1) * 2 powi (bitlen b - 1)"
      by (simp add: power_int_add [symmetric])
    finally show ?thesis by simp
  qed
  have low: "2 powi (?k - 1) < x"
  proof -
    have "(2::rat) powi (?k - 1) * of_int b < 2 powi (?k - 1) * 2 powi (bitlen b)"
      using B(2) by (simp add: mult_strict_left_mono)
    also have "\<dots> = 2 powi (bitlen a - 1)"
      by (simp add: power_int_add [symmetric])
    also have "\<dots> \<le> of_int a" by (rule A(1))
    also have "\<dots> = x * of_int b" by (simp add: \<open>x * of_int b = of_int a\<close>)
    finally show ?thesis using bpos by simp
  qed
  show ?thesis
  proof (cases "2 powi ?k \<le> x")
    case True
    with q have "binade x = ?k" by (simp add: binade_def)
    with True up show ?thesis by simp
  next
    case False
    with q have "binade x = ?k - 1" by (simp add: binade_def)
    with False low show ?thesis by simp
  qed
qed

lemma round_ties_even_error: "\<bar>of_int (round_ties_even y) - y\<bar> \<le> 1 / 2"
proof -
  have "of_int \<lfloor>y\<rfloor> \<le> y" "y < of_int \<lfloor>y\<rfloor> + 1" by linarith+
  then show ?thesis
    by (auto simp: round_ties_even_def Let_def abs_le_iff)
qed

lemma double_error:
  assumes "2 powi (- 1022) \<le> x"
  shows "\<bar>double x - x\<bar> \<le> x / 2 ^ 53"
proof -
  have "(0::rat) < 2 powi (- 1022)" by (rule zero_less_power_int) simp
  with assms have xpos: "0 < x" by linarith
  from binade_bounds [OF xpos] have lo: "2 powi (binade x) \<le> x" and hi: "x < 2 powi (binade x + 1)"
    by simp_all
  have normal: "- 1022 \<le> binade x"
  proof (rule ccontr)
    assume "\<not> - 1022 \<le> binade x"
    then have "binade x + 1 \<le> - 1022" by simp
    then have "(2::rat) powi (binade x + 1) \<le> 2 powi (- 1022)"
      by (rule power_int_increasing) simp
    with hi assms show False by linarith
  qed
  define e where "e = binade x - 52"
  define y where "y = x / 2 powi e"
  have epos: "(0::rat) < 2 powi e" by (rule zero_less_power_int) simp
  have x: "x = y * 2 powi e" using epos by (simp add: y_def)
  from normal have "max (binade x - 52) (- 1074) = e" by (simp add: e_def)
  with xpos have d: "double x = of_int (round_ties_even y) * 2 powi e"
    by (simp add: double_def Let_def y_def)
  have "double x - x = (of_int (round_ties_even y) - y) * 2 powi e"
    unfolding d by (subst x) (simp add: left_diff_distrib)
  then have "\<bar>double x - x\<bar> = \<bar>of_int (round_ties_even y) - y\<bar> * 2 powi e"
    using epos by (simp add: abs_mult)
  also have "\<dots> \<le> 1 / 2 * 2 powi e"
    using round_ties_even_error [of y] epos by (intro mult_right_mono) simp_all
  also have "\<dots> = 2 powi (binade x) / 2 ^ 53"
    by (simp add: e_def power_int_diff)
  also have "\<dots> \<le> x / 2 ^ 53"
    using lo by (simp add: divide_right_mono)
  finally show ?thesis .
qed

lemma percentage_error:
  fixes c t :: nat
  assumes c: "0 < c" "c \<le> t" and t: "t \<le> 2 ^ 44"
  shows "\<bar>js_mul (js_div (of_nat c) (of_nat t)) 100 - 100 * of_nat c / of_nat t\<bar> < 1 / 2 ^ 45"
proof -
  define x :: rat where "x = of_nat c / of_nat t"
  define q where "q = double x"
  define p where "p = double (q * 100)"
  from c have tpos: "(0::rat) < of_nat t" by simp
  have x1: "x \<le> 1" using c tpos by (simp add: x_def)
  have "(of_nat t :: rat) \<le> of_nat (2 ^ 44)" using t by (simp only: of_nat_le_iff)
  then have t': "(of_nat t :: rat) \<le> 2 ^ 44" by simp
  have "1 / 2 ^ 44 \<le> 1 / (of_nat t :: rat)"
    using t' tpos by (intro divide_left_mono) simp_all
  also have "\<dots> \<le> x"
    using c tpos by (simp add: x_def divide_right_mono)
  finally have xlow: "1 / 2 ^ 44 \<le> x" .
  have small: "(2::rat) powi (- 1022) \<le> 1 / 2 ^ 45"
    by (simp add: power_int_minus_divide)
  from xlow small have "2 powi (- 1022) \<le> x" by simp
  from double_error [OF this] have eq: "\<bar>q - x\<bar> \<le> x / 2 ^ 53" by (simp add: q_def)
  have "x / 2 ^ 53 \<le> 1 / 2 ^ 53" using x1 by (intro divide_right_mono) simp_all
  with eq have eq': "\<bar>q - x\<bar> \<le> 1 / 2 ^ 53" by linarith
  have "(1::rat) / 2 ^ 44 - 1 / 2 ^ 53 \<ge> 1 / 2 ^ 45" "(1::rat) + 1 / 2 ^ 53 \<le> 3 / 2" by simp_all
  with eq' x1 xlow have qlow: "1 / 2 ^ 45 \<le> q" and qhigh: "q \<le> 3 / 2"
    by (simp_all only: abs_le_iff) linarith+
  have "(0::rat) < 1 / 2 ^ 45" by simp
  with qlow small have "2 powi (- 1022) \<le> q * 100" by linarith
  from double_error [OF this] have "\<bar>p - q * 100\<bar> \<le> q * 100 / 2 ^ 53" by (simp add: p_def)
  moreover have "q * 100 / 2 ^ 53 \<le> 150 / 2 ^ 53"
    using qhigh by (intro divide_right_mono) simp_all
  ultimately have ep: "\<bar>p - q * 100\<bar> \<le> 150 / 2 ^ 53" by linarith
  have "p - 100 * x = (p - q * 100) + 100 * (q - x)" by simp
  then have "\<bar>p - 100 * x\<bar> \<le> \<bar>p - q * 100\<bar> + \<bar>100 * (q - x)\<bar>"
    by (simp only: abs_triangle_ineq)
  moreover have "\<bar>100 * (q - x)\<bar> = 100 * \<bar>q - x\<bar>" by (subst abs_mult) simp
  ultimately have "\<bar>p - 100 * x\<bar> \<le> \<bar>p - q * 100\<bar> + 100 * \<bar>q - x\<bar>" by (simp only:)
  also have "\<dots> \<le> 150 / 2 ^ 53 + 100 * (1 / 2 ^ 53)"
    using ep eq' by (intro add_mono mult_left_mono) simp_all
  also have "\<dots> < 1 / 2 ^ 45" by simp
  finally have "\<bar>p - 100 * x\<bar> < 1 / 2 ^ 45" .
  moreover have "100 * x = 100 * of_nat c / of_nat t" by (simp add: x_def)
  moreover have "p = js_mul (js_div (of_nat c) (of_nat t)) 100"
    by (simp add: p_def q_def x_def js_mul_def js_div_def)
  ultimately show ?thesis by (simp only:)
qed

lemma rounding_stable:
  fixes c t :: nat and p :: rat
  assumes t: "0 < t" "t \<le> 2 ^ 44"
    and p: "\<bar>p - 100 * of_nat c / of_nat t\<bar> < 1 / 2 ^ 45"
  shows "((200 * c + t) mod (2 * t) \<noteq> 0 \<longrightarrow>
           Math_round p = round (100 * of_nat c / of_nat t :: rat)) \<and>
         (Math_round p = round (100 * of_nat c / of_nat t :: rat) \<or>
          Math_round p = round (100 * of_nat c / of_nat t :: rat) - 1) \<and>
         \<bar>of_int (Math_round p) - 100 * of_nat c / of_nat t\<bar> \<le> (1 / 2 :: rat)"
proof -
  define X :: rat where "X = 100 * of_nat c / of_nat t"
  define N where "N = 200 * c + t"
  define D where "D = 2 * t"
  define n where "n = N div D"
  define r where "r = N mod D"
  from t have Dpos: "(0::rat) < of_nat D" by (simp add: D_def)
  have "(of_nat t :: rat) \<le> of_nat (2 ^ 44)" using t by (simp only: of_nat_le_iff)
  then have "(of_nat D :: rat) \<le> 2 ^ 45" by (simp add: D_def)
  then have eps: "1 / 2 ^ 45 \<le> 1 / (of_nat D :: rat)"
    using Dpos by (intro divide_left_mono) simp_all
  have y: "X + 1 / 2 = of_nat N / of_nat D"
    using t by (simp add: X_def N_def D_def field_simps)
  have "N = n * D + r" by (simp add: n_def r_def)
  then have "(of_nat N :: rat) = of_nat n * of_nat D + of_nat r"
    by (simp only: of_nat_add [symmetric] of_nat_mult [symmetric])
  with Dpos have split: "X + 1 / 2 = of_nat n + of_nat r / of_nat D"
    by (simp add: y field_simps)
  have rlt: "r < D" using t by (simp add: r_def D_def)
  then have "r + 1 \<le> D" by simp
  then have "(of_nat (r + 1) :: rat) \<le> of_nat D" by (simp only: of_nat_le_iff)
  then have rhi: "of_nat r / of_nat D \<le> 1 - 1 / (of_nat D :: rat)"
    using Dpos by (simp add: field_simps)
  have rnd: "round X = int n"
  proof -
    have "of_nat r / (of_nat D :: rat) < 1" using rlt Dpos by simp
    moreover have "0 \<le> of_nat r / (of_nat D :: rat)" by simp
    ultimately have "\<lfloor>X + 1 / 2\<rfloor> = int n"
      unfolding split by (intro floor_unique) simp_all
    then show ?thesis by (simp add: round_def)
  qed
  from p have "\<bar>p - X\<bar> < 1 / 2 ^ 45" by (simp only: X_def)
  then have plo: "X + 1 / 2 - 1 / 2 ^ 45 < p + 1 / 2" and phi: "p + 1 / 2 < X + 1 / 2 + 1 / 2 ^ 45"
    by (simp_all only: abs_less_iff) linarith+
  have r0: "0 \<le> of_nat r / (of_nat D :: rat)" by simp
  have n_int: "(of_int (int n) :: rat) = of_nat n" by simp
  have below: "p + 1 / 2 < of_int (int n) + 1"
    using phi rhi eps split n_int by linarith
  have "(1::rat) / 2 ^ 45 < 1" by simp
  then have above: "of_int (int n) - 1 < p + 1 / 2"
    using plo r0 split n_int by linarith
  have exact: "Math_round p = int n" if "r \<noteq> 0"
  proof -
    from that have "1 \<le> r" by simp
    then have "(of_nat 1 :: rat) \<le> of_nat r" by (simp only: of_nat_le_iff)
    then have "1 / (of_nat D :: rat) \<le> of_nat r / of_nat D"
      using Dpos by (simp add: divide_right_mono)
    with plo eps split n_int have "of_int (int n) \<le> p + 1 / 2"
      by linarith
    with below show ?thesis
      unfolding Math_round_def by (intro floor_unique) simp_all
  qed
  have near: "Math_round p = int n \<or> Math_round p = int n - 1"
  proof (cases "of_int (int n) \<le> p + 1 / 2")
    case True
    with below have "Math_round p = int n"
      unfolding Math_round_def by (intro floor_unique) simp_all
    then show ?thesis by simp
  next
    case False
    with above have "Math_round p = int n - 1"
      unfolding Math_round_def by (intro floor_unique) simp_all
    then show ?thesis by simp
  qed
  have half: "\<bar>of_int (Math_round p) - X\<bar> \<le> (1 / 2 :: rat)"
  proof (cases "r = 0")
    case True
    then have "X = of_nat n - 1 / 2" using split by simp
    with near show ?thesis by (auto simp: abs_le_iff)
  next
    case False
    with exact rnd have "Math_round p = round X" by simp
    then show ?thesis
      using of_int_round_abs_le [of X] by simp
  qed
  from exact near half rnd show ?thesis
    by (simp add: X_def r_def N_def D_def)
qed

section \<open>Dashboard statistics\<close>

lemma create_many_reachable: "reachable db \<Longrightarrow> reachable (create_many n task db)"
  by (induction n arbitrary: db) (auto intro: reachable.intros)

lemma status_text_inj [simp]: "status_text a = status_text b \<longleftrightarrow> a = b"
  by (cases a; cases b) simp_all

lemma count_status_eq:
  "count_status (status_text s) db = length (filter (\<lambda>t. task_status t = s) (tasks db))"
  by (simp add: count_status_def)

lemma sorted_order_by_desc:
  "sorted_wrt (\<lambda>a b. k b \<le> k a) (order_by_desc k xs)"
proof -
  have "sorted (map k (sort_key k (rev xs)))" by (rule sorted_sort_key)
  then have "sorted_wrt (\<lambda>a b. k a \<le> k b) (sort_key k (rev xs))" by (simp add: sorted_map)
  then show ?thesis by (simp add: order_by_desc_def sorted_wrt_rev)
qed

text \<open>
  What \<open>getDashboardStats\<close> does get right. For every store it returns the number of
  tasks, the number of completed tasks, the number of tasks of each of the three statuses,
  and one entry for each employee (those without tasks included) with the number of its
  tasks, in descending order of that number. \<open>completionRate\<close> is 0 when there is no task.
  With at most \<open>2 ^ 44\<close> tasks it is \<open>round (completed / total * 100)\<close> whenever that
  percentage is not exactly halfway between two integers, and never more than one half
  away from the percentage.
\<close>

lemma getDashboardStats_counts:
  "(let stats = getDashboardStats db;
        total = length (tasks db);
        completed = length (filter (\<lambda>t. task_status t = COMPLETED) (tasks db))
    in totalTasks stats = total \<and>
       completedTasks stats = completed \<and>
       tasksByStatus_pending stats = length (filter (\<lambda>t. task_status t = PENDING) (tasks db)) \<and>
       tasksByStatus_in_progress stats =
         length (filter (\<lambda>t. task_status t = IN_PROGRESS) (tasks db)) \<and>
       tasksByStatus_completed stats = completed \<and>
       (total = 0 \<longrightarrow> completionRate stats = 0) \<and>
       (0 < total \<and> total \<le> 2 ^ 44 \<longrightarrow>
          \<bar>of_int (completionRate stats) - 100 * of_nat completed / of_nat total\<bar> \<le> (1 / 2 :: rat) \<and>
          ((200 * completed + total) mod (2 * total) \<noteq> 0 \<longrightarrow>
             completionRate stats = round (100 * of_nat completed / of_nat total :: rat))) \<and>
       mset (tasksByEmployee stats) =
         mset (map (\<lambda>e. (emp_id e, emp_name e,
                          length (filter (\<lambda>t. emp_id e = task_employeeId t) (tasks db))))
                 (employees db)) \<and>
       sorted_wrt (\<lambda>a b. snd (snd b) \<le> snd (snd a)) (tasksByEmployee stats))"
proof -
  define total where "total = length (tasks db)"
  define completed where "completed = length (filter (\<lambda>t. task_status t = COMPLETED) (tasks db))"
  define rate where "rate = completionRate (getDashboardStats db)"
  have cs: "count_status ''completed'' db = completed" "count_status ''pending'' db =
      length (filter (\<lambda>t. task_status t = PENDING) (tasks db))"
    "count_status ''in-progress'' db = length (filter (\<lambda>t. task_status t = IN_PROGRESS) (tasks db))"
    using count_status_eq [of COMPLETED db] count_status_eq [of PENDING db]
      count_status_eq [of IN_PROGRESS db]
    by (simp_all add: completed_def)
  have rate_eq: "rate = (if total > 0
      then Math_round (js_mul (js_div (of_nat completed) (of_nat total)) 100) else 0)"
    by (simp add: rate_def getDashboardStats_def Let_def cs total_def)
  have le: "completed \<le> total" by (simp add: completed_def total_def)
  have zero: "rate = 0" if "total = 0" using that by (simp add: rate_eq)
  have pos: "\<bar>of_int rate - 100 * of_nat completed / of_nat total\<bar> \<le> (1 / 2 :: rat) \<and>
          ((200 * completed + total) mod (2 * total) \<noteq> 0 \<longrightarrow>
             rate = round (100 * of_nat completed / of_nat total :: rat))"
    if t: "0 < total" "total \<le> 2 ^ 44"
  proof (cases "completed = 0")
    case True
    have "double 0 = 0" by (simp add: double_def)
    moreover have "Math_round 0 = 0"
      unfolding Math_round_def by (intro floor_unique) simp_all
    ultimately have "rate = 0"
      using t True by (simp add: rate_eq js_mul_def js_div_def)
    with True show ?thesis by simp
  next
    case False
    then have "0 < completed" by simp
    from percentage_error [OF this le t(2)] rounding_stable [OF t, of _ completed] t
    show ?thesis by (simp add: rate_eq)
  qed
  have emp: "mset (tasksByEmployee (getDashboardStats db)) =
         mset (map (\<lambda>e. (emp_id e, emp_name e,
                          length (filter (\<lambda>t. emp_id e = task_employeeId t) (tasks db))))
                 (employees db))"
    by (simp add: getDashboardStats_def Let_def employee_task_counts_def order_by_desc_def)
  have srt: "sorted_wrt (\<lambda>a b. snd (snd b) \<le> snd (snd a)) (tasksByEmployee (getDashboardStats db))"
  proof -
    have "(\<lambda>(i, n, c). c) = (\<lambda>a :: int \<times> string \<times> nat. snd (snd a))" by auto
    then show ?thesis
      using sorted_order_by_desc [of "\<lambda>a :: int \<times> string \<times> nat. snd (snd a)"]
      by (simp add: getDashboardStats_def Let_def)
  qed
  have counts: "totalTasks (getDashboardStats db) = total"
    "completedTasks (getDashboardStats db) = completed"
    "tasksByStatus_pending (getDashboardStats db) =
       length (filter (\<lambda>t. task_status t = PENDING) (tasks db))"
    "tasksByStatus_in_progress (getDashboardStats db) =
       length (filter (\<lambda>t. task_status t = IN_PROGRESS) (tasks db))"
    "tasksByStatus_completed (getDashboardStats db) = completed"
    by (simp_all add: getDashboardStats_def Let_def cs total_def)
  from counts zero pos emp srt show ?thesis
    unfolding Let_def rate_def total_def completed_def by blast
qed

lemma forty_tasks_store_reachable: "reachable forty_tasks_store"
  unfolding forty_tasks_store_def
  by (intro create_many_reachable reachable.created_employee reachable.migrated)

lemma forty_tasks_stats:
  "totalTasks (getDashboardStats forty_tasks_store) = 40 \<and>
   completedTasks (getDashboardStats forty_tasks_store) = 23 \<and>
   completionRate (getDashboardStats forty_tasks_store) = 57"
  by code_simp

text \<open>
  Claim C3 at a store the code gets wrong: with 40 tasks of which 23 are completed the
  percentage is 57.5 and \<open>round\<close> gives 58, but \<^verbatim>\<open>(23 / 40) * 100\<close> is the double
  57.49999999999999 and \<^verbatim>\<open>Math.round\<close> gives 57. The counts themselves are right.
\<close>

theorem completionRate_tie_rounds_down:
  "reachable forty_tasks_store \<and>
   totalTasks (getDashboardStats forty_tasks_store) = 40 \<and>
   completedTasks (getDashboardStats forty_tasks_store) = 23 \<and>
   completionRate (getDashboardStats forty_tasks_store) = 57 \<and>
   round (23 / 40 * 100 :: rat) = 58"
proof -
  have "(23 / 40 * 100 :: rat) = 115 / 2" by simp
  moreover have "round (115 / 2 :: rat) = 58"
    unfolding round_def by (intro floor_unique) simp_all
  ultimately have "round (23 / 40 * 100 :: rat) = 58" by (simp only:)
  with forty_tasks_store_reachable forty_tasks_stats show ?thesis by (simp only: simp_thms)
qed

lemma ten_tasks_counts:
  "length (tasks ten_tasks_store) = 10"
  "length (filter (\<lambda>t. task_status t = COMPLETED) (tasks ten_tasks_store)) = 3"
  by code_simp+

lemma getDashboardStats_examples:
  "totalTasks (getDashboardStats ten_tasks_store) = 10 \<and>
   completedTasks (getDashboardStats ten_tasks_store) = 3 \<and>
   completionRate (getDashboardStats ten_tasks_store) = 30 \<and>
   completionRate (getDashboardStats empty_store) = 0 \<and>
   tasksByEmployee (getDashboardStats demo_store) =
     [(1, ''Raj Patel'', 2), (2, ''Priya Sharma'', 0)]"
proof -
  note ten = getDashboardStats_counts [of ten_tasks_store, unfolded Let_def ten_tasks_counts]
  note none = getDashboardStats_counts [of empty_store, unfolded Let_def]
  from ten have "completionRate (getDashboardStats ten_tasks_store) =
      round (100 * of_nat 3 / of_nat 10 :: rat)"
    by simp
  then have rate: "completionRate (getDashboardStats ten_tasks_store) = 30" by simp
  from none have zero: "completionRate (getDashboardStats empty_store) = 0"
    by (simp add: empty_store_def)
  have emp: "tasksByEmployee (getDashboardStats demo_store) =
     [(1, ''Raj Patel'', 2), (2, ''Priya Sharma'', 0)]"
    by (simp add: demo_store_eq getDashboardStats_def employee_task_counts_def Let_def
        order_by_desc_def demo_raj_def demo_priya_def demo_row1_def demo_row2_def)
  from ten rate zero emp show ?thesis by simp
qed

end
